theory Spec2Isabelle
  imports Complex_Main
begin

section \<open>Configuration and data\<close>

text \<open>
  The module constants of \<^verbatim>\<open>trading_bot.py\<close> are read once from the process environment.
  They are gathered in one record that every function takes as its first argument.
  A Python float that the controller reads (a price, a cost, a quantity) is the real number
  it denotes; infinities and NaN as inputs are left out. The arithmetic of
  \<^verbatim>\<open>analyze_erosion\<close> is the arithmetic of doubles, see below.
\<close>

record config =
  WATCHLIST :: "string list"
  OPTIONS_WATCHLIST :: "string list"
  MAX_DRAWDOWN_PCT :: real
  WASH_SALE_DAYS :: int

text \<open>
  The state dictionary \<^verbatim>\<open>{"wash_sale_log": {ticker: "YYYY-MM-DD"}}\<close>.
  A date string is represented by the calendar day it denotes, counted in days from a
  fixed origin: \<^verbatim>\<open>strptime\<close> of a string written by \<^verbatim>\<open>strftime\<close> with the
  same format gives that day back. The key \<^verbatim>\<open>"positions"\<close> that \<^verbatim>\<open>load_state\<close>
  creates is never read and is left out.
\<close>

record state_dict =
  wash_sale_log :: "string \<rightharpoonup> int"

text \<open>
  A position dictionary as the broker returns it. The four keys the controller reads are
  optional fields (\<open>None\<close>: the key is absent); \<open>other_keys\<close> lists whatever else the
  dictionary holds, so that an empty dictionary can be told from a non-empty one.
  Numeric fields hold numbers, the symbol holds text.
\<close>

record position =
  symbol :: "string option"
  average_price :: "real option"
  quantity :: "real option"
  dividends :: "real option"
  other_keys :: "string list"

datatype decision = SELL_CRITICAL | HOLD

datatype message =
    NoBrokersAvailable
  | Analyzing string
  | WashSaleWarning string int
  | NoPriceData string
  | CooldownLogged string
  | HoldingSteady string
  | NoPosition string real
  | AnalyzingOptions string
  | AnalyzingOptionsFor string
  | OptionsOpportunity string string
  | CycleComplete
  | MarketDataError string string
  | PositionsError string
  | OrderError string
  | OptionsChainError string string

text \<open>
  Everything the controller does to the outside, in the order it does it: log records,
  writes of the state file, and calls of broker methods, each with the value the method
  returned.
\<close>

datatype event =
    LogInfo message
  | LogWarning message
  | LogError message
  | FileWritten state_dict
  | MarketData string real
  | Positions "position list"
  | PlaceOrder string string int bool
  | OptionsChain string "string list"

text \<open>
  The world of one run: \<open>bot_state\<close> is \<^verbatim>\<open>self.state\<close>, \<open>log_file\<close> is the content of
  \<^verbatim>\<open>LOG_FILE\<close> (\<open>None\<close>: no file yet), \<open>env\<close> is everything outside the process
  (the brokerage and the clock), \<open>trace\<close> the events so far. Up to the section on the
  exceptions of the loop body, a write of the state file is taken to succeed.
\<close>

record 'e world =
  bot_state :: state_dict
  log_file :: "state_dict option"
  env :: 'e
  trace :: "event list"

definition emit :: "event \<Rightarrow> 'e world \<Rightarrow> 'e world" where
  "emit ev w = w\<lparr>trace := trace w @ [ev]\<rparr>"

section \<open>State management\<close>

definition load_state :: "state_dict option \<Rightarrow> state_dict" where
  "load_state file = (case file of Some s \<Rightarrow> s | None \<Rightarrow> \<lparr>wash_sale_log = Map.empty\<rparr>)"

text \<open>\<^verbatim>\<open>save_state(state)\<close> overwrites the file with the dictionary it is given.\<close>

definition save_state :: "state_dict \<Rightarrow> 'e world \<Rightarrow> 'e world" where
  "save_state s w = emit (FileWritten s) (w\<lparr>log_file := Some s\<rparr>)"

section \<open>Double precision\<close>

text \<open>
  Python computes with IEEE 754 doubles: the result of an addition, subtraction or
  multiplication is the exact result rounded to the nearest double, ties to the even
  significand, and an infinity when the rounded result reaches \<open>pow2 1024\<close>. A double has
  53 significant bits; below \<open>pow2 (-1022)\<close> the spacing stays \<open>pow2 (-1074)\<close>.
\<close>

definition pow2 :: "int \<Rightarrow> real" where
  "pow2 k = (if 0 \<le> k then 2 ^ nat k else 1 / 2 ^ nat (- k))"

definition round_half_even :: "real \<Rightarrow> int" where
  "round_half_even x =
     (let f = \<lfloor>x\<rfloor>; d = x - of_int f
      in if d < 1 / 2 then f else if 1 / 2 < d then f + 1 else if even f then f else f + 1)"

definition binade :: "real \<Rightarrow> int" where
  "binade x = max \<lfloor>log 2 \<bar>x\<bar>\<rfloor> (- 1022)"

definition round_double :: "real \<Rightarrow> real" where
  "round_double x =
     (if x = 0 then 0
      else (let ulp = pow2 (binade x - 52) in of_int (round_half_even (x / ulp)) * ulp))"

datatype pyfloat = Finite real | PlusInf | MinusInf

definition to_float :: "real \<Rightarrow> pyfloat" where
  "to_float x =
     (let r = round_double x
      in if pow2 1024 \<le> \<bar>r\<bar> then (if 0 < x then PlusInf else MinusInf) else Finite r)"

text \<open>
  The operations \<^verbatim>\<open>analyze_erosion\<close> applies, on finite operands where it only meets
  finite ones: \<^verbatim>\<open>a - b\<close>, \<^verbatim>\<open>a * b\<close>, \<^verbatim>\<open>x + b\<close>, \<^verbatim>\<open>abs(x)\<close> and \<^verbatim>\<open>x < y\<close>.
\<close>

definition float_sub :: "real \<Rightarrow> real \<Rightarrow> pyfloat" where
  "float_sub a b = to_float (a - b)"

definition float_mul :: "real \<Rightarrow> real \<Rightarrow> pyfloat" where
  "float_mul a b = to_float (a * b)"

fun float_add :: "pyfloat \<Rightarrow> real \<Rightarrow> pyfloat" where
  "float_add (Finite a) b = to_float (a + b)"
| "float_add PlusInf b = PlusInf"
| "float_add MinusInf b = MinusInf"

fun float_abs :: "pyfloat \<Rightarrow> pyfloat" where
  "float_abs (Finite a) = Finite \<bar>a\<bar>"
| "float_abs PlusInf = PlusInf"
| "float_abs MinusInf = PlusInf"

fun float_less :: "pyfloat \<Rightarrow> pyfloat \<Rightarrow> bool" where
  "float_less (Finite a) (Finite b) \<longleftrightarrow> a < b"
| "float_less (Finite a) PlusInf \<longleftrightarrow> True"
| "float_less (Finite a) MinusInf \<longleftrightarrow> False"
| "float_less MinusInf (Finite b) \<longleftrightarrow> True"
| "float_less MinusInf PlusInf \<longleftrightarrow> True"
| "float_less MinusInf MinusInf \<longleftrightarrow> False"
| "float_less PlusInf y \<longleftrightarrow> False"

text \<open>A real number that is a double: rounding leaves it as it is, and it is in range.\<close>

definition representable :: "real \<Rightarrow> bool" where
  "representable x \<longleftrightarrow> round_double x = x \<and> \<bar>x\<bar> < pow2 1024"

section \<open>Core logic\<close>

text \<open>
  \<^verbatim>\<open>check_wash_sale(ticker, state)\<close>. The argument \<open>today\<close> is the calendar day of
  \<^verbatim>\<open>datetime.now()\<close>; the stored date is a midnight, so \<^verbatim>\<open>(now - last).days\<close> is the
  difference of the two calendar days. The dictionary is mutated in place, which is the
  update of \<open>bot_state\<close>.
\<close>

definition check_wash_sale :: "config \<Rightarrow> int \<Rightarrow> string \<Rightarrow> 'e world \<Rightarrow> bool \<times> 'e world" where
  "check_wash_sale cfg today ticker w =
     (case wash_sale_log (bot_state w) ticker of
        Some last_loss_date \<Rightarrow>
          (let days_passed = today - last_loss_date in
           if days_passed < WASH_SALE_DAYS cfg
           then (True, emit (LogWarning (WashSaleWarning ticker (WASH_SALE_DAYS cfg - days_passed))) w)
           else
             (let s = (bot_state w)\<lparr>wash_sale_log := (wash_sale_log (bot_state w))(ticker := None)\<rparr>
              in (False, save_state s (w\<lparr>bot_state := s\<rparr>))))
      | None \<Rightarrow> (False, w))"

text \<open>
  \<^verbatim>\<open>analyze_erosion(ticker, current_price, avg_cost, total_dividends)\<close>; the two strings
  it returns are the two constructors of \<open>decision\<close>. The test
  \<^verbatim>\<open>abs(capital_loss) > avg_cost * MAX_DRAWDOWN_PCT\<close> is written with \<open>float_less\<close>, its
  sides exchanged.
\<close>

definition analyze_erosion :: "config \<Rightarrow> string \<Rightarrow> real \<Rightarrow> real \<Rightarrow> real \<Rightarrow> decision" where
  "analyze_erosion cfg ticker current_price avg_cost total_dividends =
     (let capital_loss = float_sub current_price avg_cost;
          net_position = float_add capital_loss total_dividends
      in if float_less net_position (Finite 0)
            \<and> float_less (float_mul avg_cost (MAX_DRAWDOWN_PCT cfg)) (float_abs capital_loss)
         then SELL_CRITICAL else HOLD)"

text \<open>
  The two statements of \<^verbatim>\<open>run_bot_cycle\<close> that record a loss sale:
  \<^verbatim>\<open>self.state["wash_sale_log"][ticker] = datetime.now().strftime("%Y-%m-%d")\<close> and
  \<^verbatim>\<open>save_state(self.state)\<close>.
\<close>

definition record_loss_sale :: "int \<Rightarrow> string \<Rightarrow> 'e world \<Rightarrow> 'e world" where
  "record_loss_sale today ticker w =
     (let s = (bot_state w)\<lparr>wash_sale_log := (wash_sale_log (bot_state w))(ticker \<mapsto> today)\<rparr>
      in save_state s (w\<lparr>bot_state := s\<rparr>))"

section \<open>Brokers\<close>

text \<open>
  Both broker classes have the same shape in each method: return the fallback when the
  broker is not connected, otherwise run the calls of the brokerage library inside
  \<^verbatim>\<open>try\<close>, and on any exception log an error and return the fallback. What happens
  inside \<^verbatim>\<open>try\<close> belongs to the brokerage and is a parameter: it either raises (with
  the text of the exception) or returns a value, and it may change the environment.
\<close>

datatype 'a attempt = Raises string | Returns 'a

record 'e broker =
  is_connected :: bool
  market_data_body :: "string \<Rightarrow> 'e \<Rightarrow> real attempt \<times> 'e"
  positions_body :: "'e \<Rightarrow> position list attempt \<times> 'e"
  place_order_body :: "string \<Rightarrow> string \<Rightarrow> int \<Rightarrow> 'e \<Rightarrow> bool attempt \<times> 'e"
  options_chain_body :: "string \<Rightarrow> 'e \<Rightarrow> string list attempt \<times> 'e"

text \<open>\<^verbatim>\<open>get_market_data(ticker)\<close>; the indicators are never read and are left out.\<close>

definition get_market_data :: "'e broker \<Rightarrow> string \<Rightarrow> 'e world \<Rightarrow> real \<times> 'e world" where
  "get_market_data broker ticker w =
     (if \<not> is_connected broker then (0, emit (MarketData ticker 0) w)
      else (case market_data_body broker ticker (env w) of
              (Returns price, e) \<Rightarrow> (price, emit (MarketData ticker price) (w\<lparr>env := e\<rparr>))
            | (Raises msg, e) \<Rightarrow>
                (0, emit (MarketData ticker 0)
                      (emit (LogError (MarketDataError ticker msg)) (w\<lparr>env := e\<rparr>)))))"

definition get_positions :: "'e broker \<Rightarrow> 'e world \<Rightarrow> position list \<times> 'e world" where
  "get_positions broker w =
     (if \<not> is_connected broker then ([], emit (Positions []) w)
      else (case positions_body broker (env w) of
              (Returns positions, e) \<Rightarrow> (positions, emit (Positions positions) (w\<lparr>env := e\<rparr>))
            | (Raises msg, e) \<Rightarrow>
                ([], emit (Positions [])
                       (emit (LogError (PositionsError msg)) (w\<lparr>env := e\<rparr>)))))"

definition place_order :: "'e broker \<Rightarrow> string \<Rightarrow> string \<Rightarrow> int \<Rightarrow> 'e world \<Rightarrow> bool \<times> 'e world" where
  "place_order broker ticker action qty w =
     (if \<not> is_connected broker then (False, emit (PlaceOrder ticker action qty False) w)
      else (case place_order_body broker ticker action qty (env w) of
              (Returns result, e) \<Rightarrow>
                (result, emit (PlaceOrder ticker action qty result) (w\<lparr>env := e\<rparr>))
            | (Raises msg, e) \<Rightarrow>
                (False, emit (PlaceOrder ticker action qty False)
                          (emit (LogError (OrderError msg)) (w\<lparr>env := e\<rparr>)))))"

definition get_options_chain :: "'e broker \<Rightarrow> string \<Rightarrow> 'e world \<Rightarrow> string list \<times> 'e world" where
  "get_options_chain broker ticker w =
     (if \<not> is_connected broker then ([], emit (OptionsChain ticker []) w)
      else (case options_chain_body broker ticker (env w) of
              (Returns chain, e) \<Rightarrow> (chain, emit (OptionsChain ticker chain) (w\<lparr>env := e\<rparr>))
            | (Raises msg, e) \<Rightarrow>
                ([], emit (OptionsChain ticker [])
                       (emit (LogError (OptionsChainError ticker msg)) (w\<lparr>env := e\<rparr>)))))"

section \<open>The controller\<close>

text \<open>\<^verbatim>\<open>str.upper()\<close> on ASCII text, which ticker symbols are.\<close>

definition upper_char :: "char \<Rightarrow> char" where
  "upper_char c =
     (let n = (of_char c :: nat) in if 97 \<le> n \<and> n \<le> 122 then char_of (n - 32) else c)"

definition upper :: "string \<Rightarrow> string" where
  "upper s = map upper_char s"

text \<open>\<^verbatim>\<open>int(x)\<close> of a number drops the fractional part.\<close>

definition py_int :: "real \<Rightarrow> int" where
  "py_int x = (if 0 \<le> x then \<lfloor>x\<rfloor> else \<lceil>x\<rceil>)"

text \<open>\<^verbatim>\<open>d.get(key, default)\<close> on an optional field.\<close>

definition dict_get :: "'a option \<Rightarrow> 'a \<Rightarrow> 'a" where
  "dict_get field fallback = (case field of Some v \<Rightarrow> v | None \<Rightarrow> fallback)"

text \<open>The test of the generator: \<^verbatim>\<open>p.get('symbol', '').upper() == ticker.upper()\<close>.\<close>

definition position_matches :: "string \<Rightarrow> position \<Rightarrow> bool" where
  "position_matches ticker p \<longleftrightarrow> upper (dict_get (symbol p) []) = upper ticker"

text \<open>\<^verbatim>\<open>if position_data:\<close> on a dictionary: true unless it is empty.\<close>

definition nonempty_dict :: "position \<Rightarrow> bool" where
  "nonempty_dict p \<longleftrightarrow>
     symbol p \<noteq> None \<or> average_price p \<noteq> None \<or> quantity p \<noteq> None
     \<or> dividends p \<noteq> None \<or> other_keys p \<noteq> []"

text \<open>
  The body of \<^verbatim>\<open>run_bot_cycle\<close>'s first loop, cut at its numbered comments. \<open>clock\<close>
  reads the calendar day of \<^verbatim>\<open>datetime.now()\<close> off the environment. First step 5 after
  a \<^verbatim>\<open>SELL_CRITICAL\<close> decision: the order, and the record of the sale if it succeeded.
\<close>

definition execute_sell :: "('e \<Rightarrow> int) \<Rightarrow> 'e broker \<Rightarrow> string \<Rightarrow> int \<Rightarrow> 'e world \<Rightarrow> 'e world" where
  "execute_sell clock broker ticker qty w =
     (case place_order broker ticker ''SELL'' qty w of
        (success, w1) \<Rightarrow>
          if success
          then emit (LogInfo (CooldownLogged ticker)) (record_loss_sale (clock (env w1)) ticker w1)
          else w1)"

text \<open>The branch \<^verbatim>\<open>if position_data:\<close>, with the three reads that default to 0.\<close>

definition evaluate_position ::
  "config \<Rightarrow> ('e \<Rightarrow> int) \<Rightarrow> 'e broker \<Rightarrow> string \<Rightarrow> real \<Rightarrow> position \<Rightarrow> 'e world \<Rightarrow> 'e world" where
  "evaluate_position cfg clock broker ticker price position_data w =
     (let avg_cost = dict_get (average_price position_data) 0;
          qty = py_int (dict_get (quantity position_data) 0);
          divs = dict_get (dividends position_data) 0
      in case analyze_erosion cfg ticker price avg_cost divs of
           SELL_CRITICAL \<Rightarrow> execute_sell clock broker ticker qty w
         | HOLD \<Rightarrow> emit (LogInfo (HoldingSteady ticker)) w)"

text \<open>Step 4: the positions, and the first one whose symbol matches.\<close>

definition check_position ::
  "config \<Rightarrow> ('e \<Rightarrow> int) \<Rightarrow> 'e broker \<Rightarrow> string \<Rightarrow> real \<Rightarrow> 'e world \<Rightarrow> 'e world" where
  "check_position cfg clock broker ticker price w =
     (case get_positions broker w of
        (positions, w1) \<Rightarrow>
          (case find (position_matches ticker) positions of
             Some position_data \<Rightarrow>
               if nonempty_dict position_data
               then evaluate_position cfg clock broker ticker price position_data w1
               else emit (LogInfo (NoPosition ticker price)) w1
           | None \<Rightarrow> emit (LogInfo (NoPosition ticker price)) w1))"

text \<open>Steps 2 and 3: the cooldown check and the price.\<close>

definition process_ticker ::
  "config \<Rightarrow> ('e \<Rightarrow> int) \<Rightarrow> 'e broker \<Rightarrow> string \<Rightarrow> 'e world \<Rightarrow> 'e world" where
  "process_ticker cfg clock broker ticker w =
     (let w1 = emit (LogInfo (Analyzing ticker)) w in
      case check_wash_sale cfg (clock (env w1)) ticker w1 of
        (restricted, w2) \<Rightarrow>
          if restricted then w2
          else (case get_market_data broker ticker w2 of
                  (price, w3) \<Rightarrow>
                    if price = 0 then emit (LogWarning (NoPriceData ticker)) w3
                    else check_position cfg clock broker ticker price w3))"

fun watchlist_loop ::
  "config \<Rightarrow> ('e \<Rightarrow> int) \<Rightarrow> 'e broker \<Rightarrow> string list \<Rightarrow> 'e world \<Rightarrow> 'e world" where
  "watchlist_loop cfg clock broker [] w = w"
| "watchlist_loop cfg clock broker (ticker # rest) w =
     watchlist_loop cfg clock broker rest (process_ticker cfg clock broker ticker w)"

text \<open>
  \<^verbatim>\<open>analyze_options_opportunity\<close> is a placeholder that always returns \<^verbatim>\<open>None\<close>,
  after one log record when the chain is not empty.
\<close>

definition analyze_options_opportunity ::
  "string \<Rightarrow> real \<Rightarrow> string list \<Rightarrow> 'e world \<Rightarrow> string option \<times> 'e world" where
  "analyze_options_opportunity ticker current_price options_chain w =
     (if options_chain = [] then (None, w)
      else (None, emit (LogInfo (AnalyzingOptionsFor ticker)) w))"

definition process_options_ticker :: "'e broker \<Rightarrow> string \<Rightarrow> 'e world \<Rightarrow> 'e world" where
  "process_options_ticker broker ticker w =
     (let w1 = emit (LogInfo (AnalyzingOptions ticker)) w in
      case get_market_data broker ticker w1 of
        (price, w2) \<Rightarrow>
          if price > 0
          then (case get_options_chain broker ticker w2 of
                  (options_chain, w3) \<Rightarrow>
                    (case analyze_options_opportunity ticker price options_chain w3 of
                       (Some opportunity, w4) \<Rightarrow> emit (LogInfo (OptionsOpportunity ticker opportunity)) w4
                     | (None, w4) \<Rightarrow> w4))
          else w2)"

fun options_loop :: "'e broker \<Rightarrow> string list \<Rightarrow> 'e world \<Rightarrow> 'e world" where
  "options_loop broker [] w = w"
| "options_loop broker (ticker # rest) w =
     options_loop broker rest (process_options_ticker broker ticker w)"

text \<open>\<^verbatim>\<open>TradingBot.run_bot_cycle\<close>, with \<^verbatim>\<open>self.brokers\<close> as an argument.\<close>

definition run_bot_cycle ::
  "config \<Rightarrow> ('e \<Rightarrow> int) \<Rightarrow> 'e broker list \<Rightarrow> 'e world \<Rightarrow> 'e world" where
  "run_bot_cycle cfg clock brokers w =
     (case brokers of
        [] \<Rightarrow> emit (LogError NoBrokersAvailable) w
      | broker # _ \<Rightarrow>
          emit (LogInfo CycleComplete)
            (options_loop broker (OPTIONS_WATCHLIST cfg)
               (watchlist_loop cfg clock broker (WATCHLIST cfg) w)))"

section \<open>Exceptions of the loop body\<close>

text \<open>
  The loop of \<^verbatim>\<open>run_bot_cycle\<close> has no \<^verbatim>\<open>try\<close>: an exception raised by one of its
  own statements leaves the loop and the function. The functions above are these statements
  where they do not raise. The ones below add the places where they do:
  \<^item> \<^verbatim>\<open>datetime.strptime\<close> on a stored date that is not of the form \<^verbatim>\<open>%Y-%m-%d\<close>,
  \<^item> \<^verbatim>\<open>.upper()\<close>, \<^verbatim>\<open>float(...)\<close> and \<^verbatim>\<open>int(...)\<close> on a value of a position record that
    they do not accept (the text \<^verbatim>\<open>'10.00000000'\<close> for \<^verbatim>\<open>int\<close>, \<^verbatim>\<open>None\<close>, and so on),
  \<^item> \<^verbatim>\<open>self.state["wash_sale_log"]\<close> on a state dictionary without that key,
  \<^item> \<^verbatim>\<open>save_state\<close> when the file cannot be written.
  The typed ledger and the typed position records hold the values that can be used; a record
  of faults says which values cannot, and with which exception: \<open>bad_dates\<close> for the stored
  dates by ticker, \<open>bad_fields\<close> for the keys of the records of the list that
  \<^verbatim>\<open>get_positions\<close> returns when it is called in a given environment (by the number of the
  record in the list), \<open>log_key_missing\<close> for the state dictionary and \<open>write_fails\<close> for
  the state file in a given environment.
\<close>

datatype exn = ValueError | TypeError | AttributeError | KeyError | OverflowError | OSError

record 'e faults =
  bad_dates :: "string \<rightharpoonup> exn"
  log_key_missing :: bool
  bad_fields :: "'e \<Rightarrow> nat \<Rightarrow> string \<rightharpoonup> exn"
  write_fails :: "'e \<Rightarrow> bool"

text \<open>A statement either raises, with the world as it is then, or ends normally.\<close>

datatype ('a, 'w) result = Uncaught exn 'w | Normal 'a 'w

text \<open>
  \<^verbatim>\<open>check_wash_sale\<close>: \<^verbatim>\<open>state.get("wash_sale_log", {})\<close> gives an empty log when the key
  is missing; the entry is deleted in memory before \<^verbatim>\<open>save_state\<close> is tried.
\<close>

definition check_wash_sale_raising ::
  "config \<Rightarrow> 'e faults \<Rightarrow> int \<Rightarrow> string \<Rightarrow> 'e world \<Rightarrow> (bool, 'e world) result" where
  "check_wash_sale_raising cfg f today ticker w =
     (if log_key_missing f then Normal False w
      else (case bad_dates f ticker of
              Some x \<Rightarrow> Uncaught x w
            | None \<Rightarrow>
                (case wash_sale_log (bot_state w) ticker of
                   Some last_loss_date \<Rightarrow>
                     (let days_passed = today - last_loss_date in
                      if days_passed < WASH_SALE_DAYS cfg
                      then Normal True
                             (emit (LogWarning (WashSaleWarning ticker (WASH_SALE_DAYS cfg - days_passed))) w)
                      else
                        (let s = (bot_state w)\<lparr>wash_sale_log := (wash_sale_log (bot_state w))(ticker := None)\<rparr>;
                             w1 = w\<lparr>bot_state := s\<rparr>
                         in if write_fails f (env w) then Uncaught OSError w1
                            else Normal False (save_state s w1)))
                 | None \<Rightarrow> Normal False w)))"

text \<open>
  The generator: \<^verbatim>\<open>p.get('symbol', '').upper()\<close> is evaluated for each record up to the
  first match. The result carries the bad keys of the record found.
\<close>

fun find_position_raising ::
  "(nat \<Rightarrow> string \<rightharpoonup> exn) \<Rightarrow> string \<Rightarrow> nat \<Rightarrow> position list
     \<Rightarrow> exn + ((string \<rightharpoonup> exn) \<times> position) option" where
  "find_position_raising bad ticker i [] = Inr None"
| "find_position_raising bad ticker i (p # ps) =
     (case bad i ''symbol'' of
        Some x \<Rightarrow> Inl x
      | None \<Rightarrow>
          if position_matches ticker p then Inr (Some (bad i, p))
          else find_position_raising bad ticker (Suc i) ps)"

text \<open>The three conversions, in the order of the source.\<close>

definition conversion_error :: "(string \<rightharpoonup> exn) \<Rightarrow> exn option" where
  "conversion_error b =
     (case b ''average_price'' of
        Some x \<Rightarrow> Some x
      | None \<Rightarrow> (case b ''quantity'' of Some x \<Rightarrow> Some x | None \<Rightarrow> b ''dividends''))"

text \<open>
  Step 5: after a successful order, the entry is set in memory before \<^verbatim>\<open>save_state\<close> is
  tried; without the key nothing is set.
\<close>

definition execute_sell_raising ::
  "('e \<Rightarrow> int) \<Rightarrow> 'e faults \<Rightarrow> 'e broker \<Rightarrow> string \<Rightarrow> int \<Rightarrow> 'e world \<Rightarrow> (unit, 'e world) result" where
  "execute_sell_raising clock f broker ticker qty w =
     (case place_order broker ticker ''SELL'' qty w of
        (success, w1) \<Rightarrow>
          if success
          then (if log_key_missing f then Uncaught KeyError w1
                else (let s = (bot_state w1)\<lparr>wash_sale_log :=
                                (wash_sale_log (bot_state w1))(ticker \<mapsto> clock (env w1))\<rparr>;
                          w2 = w1\<lparr>bot_state := s\<rparr>
                      in if write_fails f (env w1) then Uncaught OSError w2
                         else Normal () (emit (LogInfo (CooldownLogged ticker)) (save_state s w2))))
          else Normal () w1)"

definition evaluate_position_raising ::
  "config \<Rightarrow> ('e \<Rightarrow> int) \<Rightarrow> 'e faults \<Rightarrow> 'e broker \<Rightarrow> string \<Rightarrow> real \<Rightarrow> (string \<rightharpoonup> exn)
     \<Rightarrow> position \<Rightarrow> 'e world \<Rightarrow> (unit, 'e world) result" where
  "evaluate_position_raising cfg clock f broker ticker price b position_data w =
     (case conversion_error b of
        Some x \<Rightarrow> Uncaught x w
      | None \<Rightarrow>
          (let avg_cost = dict_get (average_price position_data) 0;
               qty = py_int (dict_get (quantity position_data) 0);
               divs = dict_get (dividends position_data) 0
           in case analyze_erosion cfg ticker price avg_cost divs of
                SELL_CRITICAL \<Rightarrow> execute_sell_raising clock f broker ticker qty w
              | HOLD \<Rightarrow> Normal () (emit (LogInfo (HoldingSteady ticker)) w)))"

text \<open>
  A dictionary with a key whose value is bad is not empty. A bad symbol has raised before.
\<close>

definition check_position_raising ::
  "config \<Rightarrow> ('e \<Rightarrow> int) \<Rightarrow> 'e faults \<Rightarrow> 'e broker \<Rightarrow> string \<Rightarrow> real \<Rightarrow> 'e world
     \<Rightarrow> (unit, 'e world) result" where
  "check_position_raising cfg clock f broker ticker price w =
     (case get_positions broker w of
        (positions, w1) \<Rightarrow>
          (case find_position_raising (bad_fields f (env w)) ticker 0 positions of
             Inl x \<Rightarrow> Uncaught x w1
           | Inr None \<Rightarrow> Normal () (emit (LogInfo (NoPosition ticker price)) w1)
           | Inr (Some (b, position_data)) \<Rightarrow>
               if nonempty_dict position_data \<or> conversion_error b \<noteq> None
               then evaluate_position_raising cfg clock f broker ticker price b position_data w1
               else Normal () (emit (LogInfo (NoPosition ticker price)) w1)))"

definition process_ticker_raising ::
  "config \<Rightarrow> ('e \<Rightarrow> int) \<Rightarrow> 'e faults \<Rightarrow> 'e broker \<Rightarrow> string \<Rightarrow> 'e world \<Rightarrow> (unit, 'e world) result" where
  "process_ticker_raising cfg clock f broker ticker w =
     (let w1 = emit (LogInfo (Analyzing ticker)) w in
      case check_wash_sale_raising cfg f (clock (env w1)) ticker w1 of
        Uncaught x w2 \<Rightarrow> Uncaught x w2
      | Normal restricted w2 \<Rightarrow>
          if restricted then Normal () w2
          else (case get_market_data broker ticker w2 of
                  (price, w3) \<Rightarrow>
                    if price = 0 then Normal () (emit (LogWarning (NoPriceData ticker)) w3)
                    else check_position_raising cfg clock f broker ticker price w3))"

fun watchlist_loop_raising ::
  "config \<Rightarrow> ('e \<Rightarrow> int) \<Rightarrow> 'e faults \<Rightarrow> 'e broker \<Rightarrow> string list \<Rightarrow> 'e world
     \<Rightarrow> (unit, 'e world) result" where
  "watchlist_loop_raising cfg clock f broker [] w = Normal () w"
| "watchlist_loop_raising cfg clock f broker (ticker # rest) w =
     (case process_ticker_raising cfg clock f broker ticker w of
        Uncaught x w1 \<Rightarrow> Uncaught x w1
      | Normal u w1 \<Rightarrow> watchlist_loop_raising cfg clock f broker rest w1)"

definition run_bot_cycle_raising ::
  "config \<Rightarrow> ('e \<Rightarrow> int) \<Rightarrow> 'e faults \<Rightarrow> 'e broker list \<Rightarrow> 'e world \<Rightarrow> (unit, 'e world) result" where
  "run_bot_cycle_raising cfg clock f brokers w =
     (case brokers of
        [] \<Rightarrow> Normal () (emit (LogError NoBrokersAvailable) w)
      | broker # _ \<Rightarrow>
          (case watchlist_loop_raising cfg clock f broker (WATCHLIST cfg) w of
             Uncaught x w1 \<Rightarrow> Uncaught x w1
           | Normal u w1 \<Rightarrow>
               Normal () (emit (LogInfo CycleComplete) (options_loop broker (OPTIONS_WATCHLIST cfg) w1))))"

text \<open>No statement of the loop body raises.\<close>

definition no_faults :: "'e faults \<Rightarrow> bool" where
  "no_faults f \<longleftrightarrow>
     bad_dates f = Map.empty \<and> \<not> log_key_missing f
     \<and> (\<forall>e i. bad_fields f e i = Map.empty) \<and> (\<forall>e. \<not> write_fails f e)"

section \<open>Reading a trace\<close>

text \<open>
  What a trace shows: the dictionaries written to the state file, the orders submitted,
  the position lists fetched and the tickers whose analysis was started.
\<close>

fun file_writes :: "event list \<Rightarrow> state_dict list" where
  "file_writes [] = []"
| "file_writes (FileWritten s # evs) = s # file_writes evs"
| "file_writes (ev # evs) = file_writes evs"

fun orders :: "event list \<Rightarrow> (string \<times> string \<times> int) list" where
  "orders [] = []"
| "orders (PlaceOrder ticker action qty result # evs) = (ticker, action, qty) # orders evs"
| "orders (ev # evs) = orders evs"

fun position_lookups :: "event list \<Rightarrow> position list list" where
  "position_lookups [] = []"
| "position_lookups (Positions ps # evs) = ps # position_lookups evs"
| "position_lookups (ev # evs) = position_lookups evs"

text \<open>The tickers of the orders that the broker reported as placed.\<close>

fun successful_sales :: "event list \<Rightarrow> string list" where
  "successful_sales [] = []"
| "successful_sales (PlaceOrder ticker action qty True # evs) = ticker # successful_sales evs"
| "successful_sales (ev # evs) = successful_sales evs"

fun analyzed :: "event list \<Rightarrow> string list" where
  "analyzed [] = []"
| "analyzed (LogInfo (Analyzing ticker) # evs) = ticker # analyzed evs"
| "analyzed (ev # evs) = analyzed evs"

section \<open>Sample data\<close>

text \<open>
  A configuration with the default settings (the drawdown fraction is the double nearest to
  0.10, which is what \<^verbatim>\<open>float('0.10')\<close> gives), a broker whose library calls always return the
  same answers, one whose library calls each raise or return as told, and a world whose
  environment is the calendar day.
\<close>

definition sample_config :: config where
  "sample_config =
     \<lparr>WATCHLIST = [''SPY'', ''QQQ''], OPTIONS_WATCHLIST = [''SPY''],
      MAX_DRAWDOWN_PCT = 3602879701896397 / 36028797018963968, WASH_SALE_DAYS = 31\<rparr>"

definition no_sales :: "string \<rightharpoonup> int" where
  "no_sales = Map.empty"

definition spy_sold_on_day_100 :: "string \<rightharpoonup> int" where
  "spy_sold_on_day_100 = [''SPY'' \<mapsto> 100]"

definition sample_world :: "(string \<rightharpoonup> int) \<Rightarrow> int \<Rightarrow> int world" where
  "sample_world ledger day =
     \<lparr>bot_state = \<lparr>wash_sale_log = ledger\<rparr>, log_file = Some \<lparr>wash_sale_log = ledger\<rparr>,
      env = day, trace = []\<rparr>"

definition day_of :: "int \<Rightarrow> int" where
  "day_of e = e"

definition scripted_broker :: "real \<Rightarrow> position list \<Rightarrow> bool \<Rightarrow> int broker" where
  "scripted_broker price positions accepted =
     \<lparr>is_connected = True,
      market_data_body = (\<lambda>ticker e. (Returns price, e)),
      positions_body = (\<lambda>e. (Returns positions, e)),
      place_order_body = (\<lambda>ticker action qty e. (Returns accepted, e)),
      options_chain_body = (\<lambda>ticker e. (Returns [], e))\<rparr>"

definition broker_with :: "real attempt \<Rightarrow> position list attempt \<Rightarrow> bool attempt \<Rightarrow> int broker" where
  "broker_with quote positions order =
     \<lparr>is_connected = True,
      market_data_body = (\<lambda>ticker e. (quote, e)),
      positions_body = (\<lambda>e. (positions, e)),
      place_order_body = (\<lambda>ticker action qty e. (order, e)),
      options_chain_body = (\<lambda>ticker e. (Returns [], e))\<rparr>"

definition held :: "string \<Rightarrow> real \<Rightarrow> real \<Rightarrow> real \<Rightarrow> position" where
  "held s avg qty divs =
     \<lparr>symbol = Some s, average_price = Some avg, quantity = Some qty, dividends = Some divs,
      other_keys = []\<rparr>"

definition symbol_only :: "string \<Rightarrow> position" where
  "symbol_only s =
     \<lparr>symbol = Some s, average_price = None, quantity = None, dividends = None,
      other_keys = []\<rparr>"

text \<open>Two runs of one ticker: a negative price, and a position of ten and a half shares.\<close>

definition negative_quote_run :: "int world" where
  "negative_quote_run =
     process_ticker sample_config day_of (scripted_broker (- 1) [held ''SPY'' 10 5 0] True) ''SPY''
       (sample_world no_sales 7)"

definition fractional_run :: "int world" where
  "fractional_run =
     process_ticker sample_config day_of (scripted_broker 50 [held ''SPY'' 100 10.5 0] True) ''SPY''
       (sample_world no_sales 7)"


text \<open>
  No faults; a broker whose library raises for the price of \<^verbatim>\<open>SPY\<close> only and holds
  \<^verbatim>\<open>QQQ\<close>; a position whose quantity is the text \<^verbatim>\<open>'10.00000000'\<close>, and the cycle
  with it.
\<close>

definition nothing_raises :: "int faults" where
  "nothing_raises =
     \<lparr>bad_dates = Map.empty, log_key_missing = False,
      bad_fields = (\<lambda>e i. Map.empty), write_fails = (\<lambda>e. False)\<rparr>"

definition flaky_broker :: "int broker" where
  "flaky_broker =
     \<lparr>is_connected = True,
      market_data_body = (\<lambda>ticker e. if ticker = ''SPY'' then (Raises ''timeout'', e) else (Returns 50, e)),
      positions_body = (\<lambda>e. (Returns [held ''QQQ'' 100 10 0], e)),
      place_order_body = (\<lambda>ticker action qty e. (Returns True, e)),
      options_chain_body = (\<lambda>ticker e. (Returns [], e))\<rparr>"

definition text_quantity :: position where
  "text_quantity =
     \<lparr>symbol = Some ''SPY'', average_price = Some 100, quantity = None, dividends = Some 0,
      other_keys = []\<rparr>"

definition quantity_is_text :: "int faults" where
  "quantity_is_text =
     nothing_raises\<lparr>bad_fields :=
       (\<lambda>e i. if i = 0 then [''quantity'' \<mapsto> ValueError] else Map.empty)\<rparr>"

definition text_quantity_run :: "(unit, int world) result" where
  "text_quantity_run =
     run_bot_cycle_raising sample_config day_of quantity_is_text
       [scripted_broker 50 [text_quantity] True] (sample_world no_sales 7)"

definition flaky_run :: "int world" where
  "flaky_run = run_bot_cycle sample_config day_of [flaky_broker] (sample_world no_sales 7)"

section \<open>Effects of the single steps\<close>

text \<open>
  A broker method changes neither the ledger nor the state file, and adds to the trace its
  own call, after an error record when the library raised.
\<close>

lemma emit_simps [simp]:
  "bot_state (emit ev w) = bot_state w" "log_file (emit ev w) = log_file w"
  "env (emit ev w) = env w" "trace (emit ev w) = trace w @ [ev]"
  by (simp_all add: emit_def)

lemma file_writes_append [simp]: "file_writes (xs @ ys) = file_writes xs @ file_writes ys"
  by (induction xs rule: file_writes.induct) simp_all

lemma orders_append [simp]: "orders (xs @ ys) = orders xs @ orders ys"
  by (induction xs rule: orders.induct) simp_all

lemma position_lookups_append [simp]:
  "position_lookups (xs @ ys) = position_lookups xs @ position_lookups ys"
  by (induction xs rule: position_lookups.induct) simp_all

lemma analyzed_append [simp]: "analyzed (xs @ ys) = analyzed xs @ analyzed ys"
  by (induction xs rule: analyzed.induct) simp_all

lemma get_market_data_effect:
  assumes "get_market_data broker ticker w = (price, w')"
  shows "bot_state w' = bot_state w" "log_file w' = log_file w"
    "trace w' = trace w @ [MarketData ticker price]
     \<or> (\<exists>msg. price = 0 \<and> trace w' = trace w @ [LogError (MarketDataError ticker msg), MarketData ticker 0])"
  using assms by (auto simp: get_market_data_def split: if_splits prod.splits attempt.splits)

lemma get_positions_effect:
  assumes "get_positions broker w = (positions, w')"
  shows "bot_state w' = bot_state w" "log_file w' = log_file w"
    "trace w' = trace w @ [Positions positions]
     \<or> (\<exists>msg. positions = [] \<and> trace w' = trace w @ [LogError (PositionsError msg), Positions []])"
  using assms by (auto simp: get_positions_def split: if_splits prod.splits attempt.splits)

lemma place_order_effect:
  assumes "place_order broker ticker action qty w = (success, w')"
  shows "bot_state w' = bot_state w" "log_file w' = log_file w"
    "trace w' = trace w @ [PlaceOrder ticker action qty success]
     \<or> (\<exists>msg. \<not> success \<and> trace w' = trace w @ [LogError (OrderError msg), PlaceOrder ticker action qty False])"
  using assms by (auto simp: place_order_def split: if_splits prod.splits attempt.splits)

lemma check_wash_sale_not_restricted:
  assumes "check_wash_sale cfg today ticker w = (False, w')"
  shows "wash_sale_log (bot_state w') ticker = None"
  using assms by (auto simp: check_wash_sale_def save_state_def Let_def split: option.splits if_splits)

lemma check_wash_sale_effect:
  assumes "check_wash_sale cfg today ticker w = (restricted, w')"
  shows "env w' = env w" "orders (trace w') = orders (trace w)"
    "position_lookups (trace w') = position_lookups (trace w)"
    "analyzed (trace w') = analyzed (trace w)"
  using assms
  by (auto simp: check_wash_sale_def save_state_def Let_def split: option.splits if_splits)

lemma py_int_of_int [simp]: "py_int (of_int n) = n"
  by (simp add: py_int_def)

lemma py_int_truncates: "\<bar>of_int (py_int x) - x\<bar> < 1 \<and> \<bar>of_int (py_int x) :: real\<bar> \<le> \<bar>x\<bar>"
  unfolding py_int_def by (cases "0 \<le> x") (simp_all, linarith+)

text \<open>
  Only \<^verbatim>\<open>run_bot_cycle\<close> itself logs that the analysis of a ticker starts: once for each
  ticker of the watchlist, in order.
\<close>

lemma analyzed_get_market_data:
  "get_market_data broker ticker w = (price, w') \<Longrightarrow> analyzed (trace w') = analyzed (trace w)"
  using get_market_data_effect(3) [of broker ticker w price w'] by auto

lemma analyzed_get_positions:
  "get_positions broker w = (positions, w') \<Longrightarrow> analyzed (trace w') = analyzed (trace w)"
  using get_positions_effect(3) [of broker w positions w'] by auto

lemma analyzed_place_order:
  "place_order broker ticker action qty w = (success, w') \<Longrightarrow> analyzed (trace w') = analyzed (trace w)"
  using place_order_effect(3) [of broker ticker action qty w success w'] by auto

lemma analyzed_get_options_chain:
  "get_options_chain broker ticker w = (chain, w') \<Longrightarrow> analyzed (trace w') = analyzed (trace w)"
  by (auto simp: get_options_chain_def split: if_splits prod.splits attempt.splits)

lemma analyzed_execute_sell:
  "analyzed (trace (execute_sell clock broker ticker qty w)) = analyzed (trace w)"
  by (auto simp: execute_sell_def record_loss_sale_def save_state_def Let_def
      dest: analyzed_place_order split: prod.splits)

lemma analyzed_evaluate_position:
  "analyzed (trace (evaluate_position cfg clock broker ticker price p w)) = analyzed (trace w)"
  by (simp add: evaluate_position_def Let_def analyzed_execute_sell split: decision.splits)

lemma analyzed_check_position:
  "analyzed (trace (check_position cfg clock broker ticker price w)) = analyzed (trace w)"
  by (auto simp: check_position_def analyzed_evaluate_position
      dest: analyzed_get_positions split: prod.splits option.splits)

lemma analyzed_process_ticker:
  "analyzed (trace (process_ticker cfg clock broker ticker w)) = analyzed (trace w) @ [ticker]"
proof -
  obtain r w2 where c: "check_wash_sale cfg (clock (env w)) ticker (emit (LogInfo (Analyzing ticker)) w) = (r, w2)"
    by (cases "check_wash_sale cfg (clock (env w)) ticker (emit (LogInfo (Analyzing ticker)) w)")
  obtain price w3 where q: "get_market_data broker ticker w2 = (price, w3)"
    by (cases "get_market_data broker ticker w2")
  have "analyzed (trace w2) = analyzed (trace w) @ [ticker]"
    using check_wash_sale_effect(4) [OF c] by simp
  moreover have "analyzed (trace w3) = analyzed (trace w2)"
    using q by (rule analyzed_get_market_data)
  ultimately show ?thesis
    using c q by (simp add: process_ticker_def Let_def analyzed_check_position)
qed

lemma analyzed_watchlist_loop:
  "analyzed (trace (watchlist_loop cfg clock broker tickers w)) = analyzed (trace w) @ tickers"
  by (induction tickers arbitrary: w) (simp_all add: analyzed_process_ticker)

lemma analyzed_process_options_ticker:
  "analyzed (trace (process_options_ticker broker ticker w)) = analyzed (trace w)"
  by (auto simp: process_options_ticker_def analyze_options_opportunity_def Let_def
      dest!: analyzed_get_market_data analyzed_get_options_chain split: prod.splits option.splits if_splits)

lemma analyzed_options_loop:
  "analyzed (trace (options_loop broker tickers w)) = analyzed (trace w)"
  by (induction tickers arbitrary: w) (simp_all add: analyzed_process_options_ticker)


text \<open>
  Rounding a number whose binade is known, and the sample numbers. The two fractions are 10
  times and 100 times the double nearest to 0.10.
\<close>

lemma pow2_powr: "pow2 k = 2 powr (of_int k)"
  by (simp add: pow2_def powr_int)

lemma pow2_pos [simp]: "0 < pow2 k"
  by (simp add: pow2_def)

lemma binade_eq:
  assumes "pow2 e \<le> \<bar>x\<bar>" "\<bar>x\<bar> < pow2 (e + 1)" "- 1022 \<le> e"
  shows "binade x = e"
proof -
  have pos: "0 < \<bar>x\<bar>"
    using assms(1) pow2_pos [of e] by linarith
  have "\<lfloor>log 2 \<bar>x\<bar>\<rfloor> = e"
    using assms(1,2) pos by (simp add: floor_log_eq_powr_iff pow2_powr)
  then show ?thesis
    using assms(3) by (simp add: binade_def)
qed

lemma round_double_in_binade:
  assumes "pow2 e \<le> \<bar>x\<bar>" "\<bar>x\<bar> < pow2 (e + 1)" "- 1022 \<le> e"
  shows "round_double x = of_int (round_half_even (x / pow2 (e - 52))) * pow2 (e - 52)"
proof -
  have "0 < \<bar>x\<bar>"
    using assms(1) pow2_pos [of e] by linarith
  then have "x \<noteq> 0"
    by simp
  then show ?thesis
    by (simp add: round_double_def Let_def binade_eq [OF assms])
qed

lemma round_double_tenth: "round_double (1 / 10) = 3602879701896397 / 36028797018963968"
  by (subst round_double_in_binade [where e = "- 4"]) (simp_all add: pow2_def round_half_even_def)

lemma to_float_zero: "to_float 0 = Finite 0"
  by (simp add: to_float_def round_double_def pow2_def)

lemma to_float_1: "to_float 1 = Finite 1"
  unfolding to_float_def
  by (subst round_double_in_binade [where e = 0]) (simp_all add: pow2_def round_half_even_def)

lemma to_float_minus_5: "to_float (- 5) = Finite (- 5)"
  unfolding to_float_def
  by (subst round_double_in_binade [where e = 2]) (simp_all add: pow2_def round_half_even_def)

lemma to_float_minus_10: "to_float (- 10) = Finite (- 10)"
  unfolding to_float_def
  by (subst round_double_in_binade [where e = 3]) (simp_all add: pow2_def round_half_even_def)

lemma to_float_minus_11: "to_float (- 11) = Finite (- 11)"
  unfolding to_float_def
  by (subst round_double_in_binade [where e = 3]) (simp_all add: pow2_def round_half_even_def)

lemma to_float_50: "to_float 50 = Finite 50"
  unfolding to_float_def
  by (subst round_double_in_binade [where e = 5]) (simp_all add: pow2_def round_half_even_def)

lemma to_float_minus_50: "to_float (- 50) = Finite (- 50)"
  unfolding to_float_def
  by (subst round_double_in_binade [where e = 5]) (simp_all add: pow2_def round_half_even_def)

lemma to_float_tenth_of_10: "to_float (18014398509481985 / 18014398509481984) = Finite 1"
  unfolding to_float_def
  by (subst round_double_in_binade [where e = 0]) (simp_all add: pow2_def round_half_even_def)

lemma to_float_tenth_of_100: "to_float (90071992547409925 / 9007199254740992) = Finite 10"
  unfolding to_float_def
  by (subst round_double_in_binade [where e = 3]) (simp_all add: pow2_def round_half_even_def)

lemmas sample_floats = to_float_zero to_float_1 to_float_minus_5 to_float_minus_10 to_float_minus_11
  to_float_50 to_float_minus_50 to_float_tenth_of_10 to_float_tenth_of_100

lemma sample_verdicts:
  assumes "MAX_DRAWDOWN_PCT cfg = 3602879701896397 / 36028797018963968"
  shows "analyze_erosion cfg ticker 50 100 0 = SELL_CRITICAL"
    and "analyze_erosion cfg ticker (- 1) 10 0 = SELL_CRITICAL"
    and "analyze_erosion cfg ticker 50 0 0 = HOLD"
  by (simp_all add: analyze_erosion_def float_sub_def float_mul_def assms sample_floats)

text \<open>Without faults the functions with exceptions are the functions without.\<close>

lemma check_wash_sale_no_faults:
  "no_faults f \<Longrightarrow> check_wash_sale_raising cfg f today ticker w
     = Normal (fst (check_wash_sale cfg today ticker w)) (snd (check_wash_sale cfg today ticker w))"
  by (simp add: no_faults_def check_wash_sale_raising_def check_wash_sale_def Let_def split: option.splits)

lemma find_position_no_faults:
  "find_position_raising (\<lambda>i. Map.empty) ticker i ps
     = Inr (map_option (Pair Map.empty) (find (position_matches ticker) ps))"
  by (induction ps arbitrary: i) simp_all

lemma execute_sell_no_faults:
  "no_faults f \<Longrightarrow> execute_sell_raising clock f broker ticker qty w
     = Normal () (execute_sell clock broker ticker qty w)"
  by (simp add: no_faults_def execute_sell_raising_def execute_sell_def record_loss_sale_def Let_def
      split: prod.splits)

lemma evaluate_position_no_faults:
  "no_faults f \<Longrightarrow> evaluate_position_raising cfg clock f broker ticker price Map.empty p w
     = Normal () (evaluate_position cfg clock broker ticker price p w)"
  by (simp add: evaluate_position_raising_def evaluate_position_def conversion_error_def Let_def
      execute_sell_no_faults split: decision.splits)

lemma check_position_no_faults:
  assumes "no_faults f"
  shows "check_position_raising cfg clock f broker ticker price w
     = Normal () (check_position cfg clock broker ticker price w)"
proof -
  have bad: "bad_fields f (env w) = (\<lambda>i. Map.empty)"
    using assms by (auto simp: no_faults_def)
  show ?thesis
    by (simp add: check_position_raising_def check_position_def bad find_position_no_faults
        conversion_error_def evaluate_position_no_faults [OF assms]
        split: prod.splits option.splits)
qed

lemma process_ticker_no_faults:
  assumes "no_faults f"
  shows "process_ticker_raising cfg clock f broker ticker w
     = Normal () (process_ticker cfg clock broker ticker w)"
  by (simp add: process_ticker_raising_def process_ticker_def Let_def
      check_wash_sale_no_faults [OF assms] check_position_no_faults [OF assms]
      split: prod.splits)

lemma watchlist_loop_no_faults:
  assumes "no_faults f"
  shows "watchlist_loop_raising cfg clock f broker tickers w
     = Normal () (watchlist_loop cfg clock broker tickers w)"
  by (induction tickers arbitrary: w) (simp_all add: process_ticker_no_faults [OF assms])

lemma run_bot_cycle_no_faults:
  assumes "no_faults f"
  shows "run_bot_cycle_raising cfg clock f brokers w = Normal () (run_bot_cycle cfg clock brokers w)"
  by (simp add: run_bot_cycle_raising_def run_bot_cycle_def watchlist_loop_no_faults [OF assms]
      split: list.splits)

lemmas raising_defs = run_bot_cycle_raising_def process_ticker_raising_def check_wash_sale_raising_def
  check_position_raising_def evaluate_position_raising_def execute_sell_raising_def
  conversion_error_def nothing_raises_def quantity_is_text_def text_quantity_def

lemmas sample_defs = sample_config_def sample_world_def scripted_broker_def broker_with_def
  held_def symbol_only_def no_sales_def spy_sold_on_day_100_def day_of_def

lemmas eval_defs = check_wash_sale_def get_market_data_def get_positions_def place_order_def
  position_matches_def nonempty_dict_def dict_get_def upper_def upper_char_def char_of_def
  bit_Suc_0_iff sample_verdicts py_int_def Let_def

section \<open>The decision function\<close>

lemma to_float_representable: "representable x \<Longrightarrow> to_float x = Finite x"
  by (simp add: representable_def to_float_def)

lemma round_double_2_79: "round_double 2.79 = 3141260740090921 / 1125899906842624"
  by (subst round_double_in_binade [where e = 1]) (simp_all add: pow2_def round_half_even_def)

lemma round_double_3_1: "round_double 3.1 = 6980579422424269 / 2251799813685248"
  by (subst round_double_in_binade [where e = 1]) (simp_all add: pow2_def round_half_even_def)

lemma boundary_loss:
  "float_sub (3141260740090921 / 1125899906842624) (6980579422424269 / 2251799813685248)
     = Finite (- (698057942242427 / 2251799813685248))"
  unfolding float_sub_def to_float_def
  by (subst round_double_in_binade [where e = "- 2"]) (simp_all add: pow2_def round_half_even_def)

lemma boundary_net:
  "float_add (Finite (- (698057942242427 / 2251799813685248))) 0
     = Finite (- (698057942242427 / 2251799813685248))"
  unfolding float_add.simps to_float_def
  by (subst round_double_in_binade [where e = "- 2"]) (simp_all add: pow2_def round_half_even_def)

lemma boundary_threshold:
  "float_mul (6980579422424269 / 2251799813685248) (3602879701896397 / 36028797018963968)
     = Finite (698057942242427 / 2251799813685248)"
  unfolding float_mul_def to_float_def
  by (subst round_double_in_binade [where e = "- 2"]) (simp_all add: pow2_def round_half_even_def)

lemma boundary_verdict:
  assumes "MAX_DRAWDOWN_PCT cfg = 3602879701896397 / 36028797018963968"
  shows "analyze_erosion cfg ticker (round_double 2.79) (round_double 3.1) 0 = HOLD"
  unfolding round_double_2_79 round_double_3_1 analyze_erosion_def Let_def assms
    boundary_loss boundary_net boundary_threshold
  by simp

lemma representable_samples:
  "representable (- 11)" "representable (25 / 2)"
  unfolding representable_def
  by (subst round_double_in_binade [where e = 3], simp_all add: pow2_def round_half_even_def)+

text \<open>
  Claim C2, as stated, fails: the difference, the sum and the product are computed in
  doubles, each rounded, and at the boundary the rounding decides. With the price
  \<^verbatim>\<open>2.79\<close>, the average cost \<^verbatim>\<open>3.1\<close>, no dividends and the fraction \<^verbatim>\<open>0.10\<close> (each the
  double that Python reads), the price minus the cost is negative and its absolute value is
  strictly greater than the cost times the fraction, and \<^verbatim>\<open>analyze_erosion\<close> returns
  \<open>HOLD\<close>: the product rounds up to the very double that the difference is.
\<close>

theorem rounding_boundary_counterexample:
  "analyze_erosion sample_config ''ULTY'' (round_double 2.79) (round_double 3.1) 0 = HOLD
   \<and> (round_double 2.79 - round_double 3.1) + 0 < 0
   \<and> \<bar>round_double 2.79 - round_double 3.1\<bar> > round_double 3.1 * MAX_DRAWDOWN_PCT sample_config"
proof -
  have pct: "MAX_DRAWDOWN_PCT sample_config = 3602879701896397 / 36028797018963968"
    by (simp add: sample_config_def)
  have exact: "(round_double 2.79 - round_double 3.1) + 0 < 0"
    "\<bar>round_double 2.79 - round_double 3.1\<bar> > round_double 3.1 * MAX_DRAWDOWN_PCT sample_config"
    unfolding round_double_2_79 round_double_3_1 pct by simp_all
  from boundary_verdict [OF pct] exact show ?thesis
    by blast
qed

text \<open>
  Claim C2, amended. \<^verbatim>\<open>analyze_erosion\<close> returns \<open>SELL_CRITICAL\<close> exactly when, in the
  arithmetic of doubles, the price minus the average cost, plus the dividends, is less than 0
  and the absolute value of the price minus the average cost is greater than the average cost
  times the drawdown fraction; it returns \<open>HOLD\<close> otherwise, and the ticker plays no part.
  Whenever the difference, the sum and the product are doubles themselves, so that nothing is
  rounded, this is the same condition in exact arithmetic. With average cost 100, fraction
  0.10 and no dividends, price 89 gives \<open>SELL_CRITICAL\<close> and price 90 gives \<open>HOLD\<close>; price
  95 with dividends 6 gives \<open>HOLD\<close>; price 2.79 with average cost 3.1 gives \<open>HOLD\<close>, by
  the rounding of the product.
\<close>

theorem analyze_erosion_decision:
  "analyze_erosion cfg ticker current_price average_cost accumulated_dividends =
     (if float_less (float_add (float_sub current_price average_cost) accumulated_dividends) (Finite 0)
         \<and> float_less (float_mul average_cost (MAX_DRAWDOWN_PCT cfg))
              (float_abs (float_sub current_price average_cost))
      then SELL_CRITICAL else HOLD)
   \<and> analyze_erosion cfg ticker current_price average_cost accumulated_dividends =
       analyze_erosion cfg ticker' current_price average_cost accumulated_dividends
   \<and> (representable (current_price - average_cost)
        \<and> representable (current_price - average_cost + accumulated_dividends)
        \<and> representable (average_cost * MAX_DRAWDOWN_PCT cfg) \<longrightarrow>
        (analyze_erosion cfg ticker current_price average_cost accumulated_dividends = SELL_CRITICAL
           \<longleftrightarrow> (current_price - average_cost) + accumulated_dividends < 0
               \<and> \<bar>current_price - average_cost\<bar> > average_cost * MAX_DRAWDOWN_PCT cfg))
   \<and> (MAX_DRAWDOWN_PCT cfg = round_double 0.10 \<longrightarrow>
         analyze_erosion cfg ticker 89 100 0 = SELL_CRITICAL
       \<and> analyze_erosion cfg ticker 90 100 0 = HOLD
       \<and> analyze_erosion cfg ticker 95 100 6 = HOLD
       \<and> analyze_erosion cfg ticker (round_double 2.79) (round_double 3.1) 0 = HOLD)"
proof -
  have unfolded: "analyze_erosion cfg ticker current_price average_cost accumulated_dividends =
     (if float_less (float_add (float_sub current_price average_cost) accumulated_dividends) (Finite 0)
         \<and> float_less (float_mul average_cost (MAX_DRAWDOWN_PCT cfg))
              (float_abs (float_sub current_price average_cost))
      then SELL_CRITICAL else HOLD)"
    by (simp add: analyze_erosion_def Let_def)
  have pure: "analyze_erosion cfg ticker current_price average_cost accumulated_dividends =
       analyze_erosion cfg ticker' current_price average_cost accumulated_dividends"
    by (simp add: analyze_erosion_def)
  have exact: "representable (current_price - average_cost)
        \<and> representable (current_price - average_cost + accumulated_dividends)
        \<and> representable (average_cost * MAX_DRAWDOWN_PCT cfg) \<longrightarrow>
        (analyze_erosion cfg ticker current_price average_cost accumulated_dividends = SELL_CRITICAL
           \<longleftrightarrow> (current_price - average_cost) + accumulated_dividends < 0
               \<and> \<bar>current_price - average_cost\<bar> > average_cost * MAX_DRAWDOWN_PCT cfg)"
    by (simp add: analyze_erosion_def Let_def float_sub_def float_mul_def to_float_representable)
  have samples: "MAX_DRAWDOWN_PCT cfg = round_double 0.10 \<longrightarrow>
         analyze_erosion cfg ticker 89 100 0 = SELL_CRITICAL
       \<and> analyze_erosion cfg ticker 90 100 0 = HOLD
       \<and> analyze_erosion cfg ticker 95 100 6 = HOLD
       \<and> analyze_erosion cfg ticker (round_double 2.79) (round_double 3.1) 0 = HOLD"
  proof
    assume "MAX_DRAWDOWN_PCT cfg = round_double 0.10"
    then have pct: "MAX_DRAWDOWN_PCT cfg = 3602879701896397 / 36028797018963968"
      using round_double_tenth by simp
    have plain: "analyze_erosion cfg ticker 89 100 0 = SELL_CRITICAL
       \<and> analyze_erosion cfg ticker 90 100 0 = HOLD
       \<and> analyze_erosion cfg ticker 95 100 6 = HOLD"
      by (simp add: analyze_erosion_def float_sub_def float_mul_def pct sample_floats)
    with boundary_verdict [OF pct]
    show "analyze_erosion cfg ticker 89 100 0 = SELL_CRITICAL
       \<and> analyze_erosion cfg ticker 90 100 0 = HOLD
       \<and> analyze_erosion cfg ticker 95 100 6 = HOLD
       \<and> analyze_erosion cfg ticker (round_double 2.79) (round_double 3.1) 0 = HOLD"
      by blast
  qed
  from unfolded pure exact samples show ?thesis
    by blast
qed

theorem analyze_erosion_decision_witness:
  "analyze_erosion sample_config ''SPY'' 89 100 0 = SELL_CRITICAL
   \<and> analyze_erosion sample_config ''SPY'' 90 100 0 = HOLD
   \<and> analyze_erosion sample_config ''SPY'' 95 100 6 = HOLD
   \<and> analyze_erosion (sample_config\<lparr>MAX_DRAWDOWN_PCT := 1 / 8\<rparr>) ''SPY'' 89 100 0 \<noteq> SELL_CRITICAL"
proof -
  have tenth: "MAX_DRAWDOWN_PCT sample_config = round_double 0.10"
    using round_double_tenth by (simp add: sample_config_def)
  have doubles: "representable (89 - 100)" "representable (89 - 100 + 0)"
    "representable (100 * MAX_DRAWDOWN_PCT (sample_config\<lparr>MAX_DRAWDOWN_PCT := 1 / 8\<rparr>))"
    using representable_samples by simp_all
  from analyze_erosion_decision [of sample_config "''SPY''" 89 100 0 "''SPY''"] tenth
  have first: "analyze_erosion sample_config ''SPY'' 89 100 0 = SELL_CRITICAL
     \<and> analyze_erosion sample_config ''SPY'' 90 100 0 = HOLD
     \<and> analyze_erosion sample_config ''SPY'' 95 100 6 = HOLD"
    by blast
  from analyze_erosion_decision [of "sample_config\<lparr>MAX_DRAWDOWN_PCT := 1 / 8\<rparr>" "''SPY''" 89 100 0 "''SPY''"]
    doubles
  have "analyze_erosion (sample_config\<lparr>MAX_DRAWDOWN_PCT := 1 / 8\<rparr>) ''SPY'' 89 100 0 = SELL_CRITICAL
     \<longleftrightarrow> (89 - 100) + 0 < (0::real)
         \<and> \<bar>89 - 100\<bar> > 100 * MAX_DRAWDOWN_PCT (sample_config\<lparr>MAX_DRAWDOWN_PCT := 1 / 8\<rparr>)"
    by blast
  then have second: "analyze_erosion (sample_config\<lparr>MAX_DRAWDOWN_PCT := 1 / 8\<rparr>) ''SPY'' 89 100 0
      \<noteq> SELL_CRITICAL"
    by simp
  from first second show ?thesis
    by blast
qed

section \<open>The cooldown ledger\<close>

text \<open>
  Claim C3. \<^verbatim>\<open>check_wash_sale\<close> returns false and changes nothing when the ledger has no
  entry for the ticker. When there is an entry and today minus its date is at least
  \<^verbatim>\<open>WASH_SALE_DAYS\<close>, it returns false, the entry is deleted and the state file is
  written with the new ledger. When there is an entry and today minus its date is less than
  \<^verbatim>\<open>WASH_SALE_DAYS\<close>, it returns true, and the ledger and the state file stay as they
  were.
\<close>

theorem check_wash_sale_contract:
  "(wash_sale_log (bot_state w) ticker = None \<longrightarrow>
      check_wash_sale cfg today ticker w = (False, w))
   \<and> (\<forall>d. wash_sale_log (bot_state w) ticker = Some d \<and> today - d \<ge> WASH_SALE_DAYS cfg \<longrightarrow>
        fst (check_wash_sale cfg today ticker w) = False
        \<and> wash_sale_log (bot_state (snd (check_wash_sale cfg today ticker w)))
            = (wash_sale_log (bot_state w))(ticker := None)
        \<and> log_file (snd (check_wash_sale cfg today ticker w))
            = Some (bot_state (snd (check_wash_sale cfg today ticker w)))
        \<and> trace (snd (check_wash_sale cfg today ticker w))
            = trace w @ [FileWritten (bot_state (snd (check_wash_sale cfg today ticker w)))])
   \<and> (\<forall>d. wash_sale_log (bot_state w) ticker = Some d \<and> today - d < WASH_SALE_DAYS cfg \<longrightarrow>
        fst (check_wash_sale cfg today ticker w) = True
        \<and> bot_state (snd (check_wash_sale cfg today ticker w)) = bot_state w
        \<and> log_file (snd (check_wash_sale cfg today ticker w)) = log_file w)"
  by (auto simp: check_wash_sale_def save_state_def emit_def Let_def)

theorem check_wash_sale_contract_witness:
  "check_wash_sale sample_config 130 ''QQQ'' (sample_world spy_sold_on_day_100 130)
     = (False, sample_world spy_sold_on_day_100 130)
   \<and> fst (check_wash_sale sample_config 131 ''SPY'' (sample_world spy_sold_on_day_100 131)) = False
   \<and> wash_sale_log (bot_state (snd (check_wash_sale sample_config 131 ''SPY''
        (sample_world spy_sold_on_day_100 131)))) ''SPY'' = None
   \<and> fst (check_wash_sale sample_config 130 ''SPY'' (sample_world spy_sold_on_day_100 130)) = True
   \<and> bot_state (snd (check_wash_sale sample_config 130 ''SPY'' (sample_world spy_sold_on_day_100 130)))
       = bot_state (sample_world spy_sold_on_day_100 130)"
proof -
  have absent: "wash_sale_log (bot_state (sample_world spy_sold_on_day_100 130)) ''QQQ'' = None"
    by (simp add: sample_world_def spy_sold_on_day_100_def)
  have present: "wash_sale_log (bot_state (sample_world spy_sold_on_day_100 day)) ''SPY'' = Some 100"
    for day by (simp add: sample_world_def spy_sold_on_day_100_def)
  have window: "131 - 100 \<ge> WASH_SALE_DAYS sample_config"
    "(130::int) - 100 < WASH_SALE_DAYS sample_config"
    by (simp_all add: sample_config_def)
  from check_wash_sale_contract [of "sample_world spy_sold_on_day_100 130" "''QQQ''" sample_config 130]
    absent
  have 1: "check_wash_sale sample_config 130 ''QQQ'' (sample_world spy_sold_on_day_100 130)
     = (False, sample_world spy_sold_on_day_100 130)"
    by blast
  from check_wash_sale_contract [of "sample_world spy_sold_on_day_100 131" "''SPY''" sample_config 131]
    present window
  have 2: "fst (check_wash_sale sample_config 131 ''SPY'' (sample_world spy_sold_on_day_100 131)) = False
     \<and> wash_sale_log (bot_state (snd (check_wash_sale sample_config 131 ''SPY''
          (sample_world spy_sold_on_day_100 131))))
       = (wash_sale_log (bot_state (sample_world spy_sold_on_day_100 131)))(''SPY'' := None)"
    by blast
  from check_wash_sale_contract [of "sample_world spy_sold_on_day_100 130" "''SPY''" sample_config 130]
    present window
  have 3: "fst (check_wash_sale sample_config 130 ''SPY'' (sample_world spy_sold_on_day_100 130)) = True
     \<and> bot_state (snd (check_wash_sale sample_config 130 ''SPY'' (sample_world spy_sold_on_day_100 130)))
       = bot_state (sample_world spy_sold_on_day_100 130)"
    by blast
  from 1 2 3 show ?thesis by simp
qed

text \<open>
  Claim C5. Recording a loss sale of a ticker on day \<open>d1\<close> sets the ticker's entry to
  \<open>d1\<close>, whatever was there, and writes the state file. After it the cooldown check of that
  ticker returns true on every day from \<open>d1\<close> up to but not including \<open>d1\<close> plus
  \<^verbatim>\<open>WASH_SALE_DAYS\<close>, and false on every day from \<open>d1\<close> plus \<^verbatim>\<open>WASH_SALE_DAYS\<close> on.
\<close>

theorem cooldown_round_trip:
  "bot_state (record_loss_sale d1 s w)
     = (bot_state w)\<lparr>wash_sale_log := (wash_sale_log (bot_state w))(s \<mapsto> d1)\<rparr>
   \<and> log_file (record_loss_sale d1 s w) = Some (bot_state (record_loss_sale d1 s w))
   \<and> trace (record_loss_sale d1 s w) = trace w @ [FileWritten (bot_state (record_loss_sale d1 s w))]
   \<and> (d1 \<le> today \<and> today < d1 + WASH_SALE_DAYS cfg \<longrightarrow>
        fst (check_wash_sale cfg today s (record_loss_sale d1 s w)) = True)
   \<and> (today \<ge> d1 + WASH_SALE_DAYS cfg \<longrightarrow>
        fst (check_wash_sale cfg today s (record_loss_sale d1 s w)) = False)"
  by (simp add: record_loss_sale_def check_wash_sale_def save_state_def Let_def)

theorem cooldown_round_trip_witness:
  "fst (check_wash_sale sample_config 100 ''SPY'' (record_loss_sale 100 ''SPY'' (sample_world no_sales 100)))
   \<and> fst (check_wash_sale sample_config 130 ''SPY'' (record_loss_sale 100 ''SPY'' (sample_world no_sales 100)))
   \<and> \<not> fst (check_wash_sale sample_config 131 ''SPY'' (record_loss_sale 100 ''SPY'' (sample_world no_sales 100)))
   \<and> fst (check_wash_sale sample_config 130 ''SPY''
        (record_loss_sale 100 ''SPY'' (sample_world spy_sold_on_day_100 100)))"
proof -
  have window: "WASH_SALE_DAYS sample_config = 31" by (simp add: sample_config_def)
  show ?thesis
    using cooldown_round_trip [of 100 "''SPY''" "sample_world no_sales 100" 100 sample_config]
      cooldown_round_trip [of 100 "''SPY''" "sample_world no_sales 100" 130 sample_config]
      cooldown_round_trip [of 100 "''SPY''" "sample_world no_sales 100" 131 sample_config]
      cooldown_round_trip [of 100 "''SPY''" "sample_world spy_sold_on_day_100 100" 130 sample_config]
    by (simp add: window)
qed

text \<open>
  Claim C6. On an entry that has expired, the cooldown check returns false, removes the entry
  and writes the state file; the same check repeated at once returns false again and leaves
  the whole world as it is: ledger, state file and trace.
\<close>

theorem pruning_idempotent:
  assumes "wash_sale_log (bot_state w) ticker = Some d"
      and "today - d \<ge> WASH_SALE_DAYS cfg"
      and "check_wash_sale cfg today ticker w = (r1, w1)"
  shows "r1 = False \<and> wash_sale_log (bot_state w1) = (wash_sale_log (bot_state w))(ticker := None)
         \<and> log_file w1 = Some (bot_state w1)
         \<and> check_wash_sale cfg today ticker w1 = (False, w1)"
  using assms by (auto simp: check_wash_sale_def save_state_def Let_def)

theorem pruning_idempotent_witness:
  "check_wash_sale sample_config 131 ''SPY'' (snd (check_wash_sale sample_config 131 ''SPY''
       (sample_world spy_sold_on_day_100 131)))
     = (False, snd (check_wash_sale sample_config 131 ''SPY'' (sample_world spy_sold_on_day_100 131)))
   \<and> wash_sale_log (bot_state (snd (check_wash_sale sample_config 131 ''SPY''
       (sample_world spy_sold_on_day_100 131)))) ''SPY'' = None"
proof -
  let ?w = "sample_world spy_sold_on_day_100 131"
  have entry: "wash_sale_log (bot_state ?w) ''SPY'' = Some 100"
    by (simp add: sample_defs)
  have expired: "131 - 100 \<ge> WASH_SALE_DAYS sample_config"
    by (simp add: sample_defs)
  have first: "check_wash_sale sample_config 131 ''SPY'' ?w
      = (fst (check_wash_sale sample_config 131 ''SPY'' ?w), snd (check_wash_sale sample_config 131 ''SPY'' ?w))"
    by simp
  from pruning_idempotent [OF entry expired first] show ?thesis by simp
qed


section \<open>One ticker of the watchlist\<close>

text \<open>
  Claim C1. Take a ticker that is not in cooldown, with a price other than 0, a matching
  non-empty position and the decision \<open>SELL_CRITICAL\<close>. The ticker has no ledger entry
  when the order is placed; from the cooldown check to the return of \<^verbatim>\<open>place_order\<close>
  the ledger and the state file are not written, and exactly one order is submitted. If the
  order succeeded, the ledger then gets the ticker's entry with the current day and the state
  file is written with it, after the order in the trace. If the order failed, the evaluation
  ends there, with the ledger and the state file as the order left them.
\<close>

theorem order_then_record:
  assumes held: "find (position_matches ticker) positions = Some p" "nonempty_dict p"
      and verdict: "analyze_erosion cfg ticker price (dict_get (average_price p) 0)
                      (dict_get (dividends p) 0) = SELL_CRITICAL"
      and checked: "check_wash_sale cfg (clock (env w)) ticker (emit (LogInfo (Analyzing ticker)) w)
                      = (False, w2)"
      and quoted: "get_market_data broker ticker w2 = (price, w3)" "price \<noteq> 0"
      and fetched: "get_positions broker w3 = (positions, w4)"
      and ordered: "place_order broker ticker ''SELL'' (py_int (dict_get (quantity p) 0)) w4
                      = (success, w5)"
  shows "wash_sale_log (bot_state w2) ticker = None
         \<and> bot_state w5 = bot_state w2 \<and> log_file w5 = log_file w2
         \<and> file_writes (trace w5) = file_writes (trace w2)
         \<and> orders (trace w5) = orders (trace w2) @ [(ticker, ''SELL'', py_int (dict_get (quantity p) 0))]
         \<and> (success \<longrightarrow>
               wash_sale_log (bot_state (process_ticker cfg clock broker ticker w))
                 = (wash_sale_log (bot_state w2))(ticker \<mapsto> clock (env w5))
             \<and> log_file (process_ticker cfg clock broker ticker w)
                 = Some (bot_state (process_ticker cfg clock broker ticker w))
             \<and> trace (process_ticker cfg clock broker ticker w)
                 = trace w5 @ [FileWritten (bot_state (process_ticker cfg clock broker ticker w)),
                               LogInfo (CooldownLogged ticker)])
         \<and> (\<not> success \<longrightarrow> process_ticker cfg clock broker ticker w = w5)"
proof -
  have none: "wash_sale_log (bot_state w2) ticker = None"
    using checked by (rule check_wash_sale_not_restricted)
  have run: "process_ticker cfg clock broker ticker w
      = execute_sell clock broker ticker (py_int (dict_get (quantity p) 0)) w4"
    using held verdict checked quoted fetched
    by (simp add: process_ticker_def check_position_def evaluate_position_def Let_def)
  have frame: "bot_state w5 = bot_state w2" "log_file w5 = log_file w2"
    using get_market_data_effect(1,2) [OF quoted(1)] get_positions_effect(1,2) [OF fetched]
      place_order_effect(1,2) [OF ordered] by simp_all
  have writes: "file_writes (trace w5) = file_writes (trace w2)"
    using get_market_data_effect(3) [OF quoted(1)] get_positions_effect(3) [OF fetched]
      place_order_effect(3) [OF ordered] by auto
  have ords: "orders (trace w5) = orders (trace w2) @ [(ticker, ''SELL'', py_int (dict_get (quantity p) 0))]"
    using get_market_data_effect(3) [OF quoted(1)] get_positions_effect(3) [OF fetched]
      place_order_effect(3) [OF ordered] by auto
  have ok: "success \<longrightarrow>
               wash_sale_log (bot_state (process_ticker cfg clock broker ticker w))
                 = (wash_sale_log (bot_state w2))(ticker \<mapsto> clock (env w5))
             \<and> log_file (process_ticker cfg clock broker ticker w)
                 = Some (bot_state (process_ticker cfg clock broker ticker w))
             \<and> trace (process_ticker cfg clock broker ticker w)
                 = trace w5 @ [FileWritten (bot_state (process_ticker cfg clock broker ticker w)),
                               LogInfo (CooldownLogged ticker)]"
    using ordered frame by (simp add: run execute_sell_def record_loss_sale_def save_state_def Let_def)
  have ko: "\<not> success \<longrightarrow> process_ticker cfg clock broker ticker w = w5"
    using ordered by (simp add: run execute_sell_def)
  from none frame writes ords ok ko show ?thesis by blast
qed


theorem order_then_record_witness:
  "wash_sale_log (bot_state (process_ticker sample_config day_of
       (scripted_broker 50 [held ''SPY'' 100 10 0] True) ''SPY'' (sample_world no_sales 7))) ''SPY''
     = Some 7
   \<and> wash_sale_log (bot_state (process_ticker sample_config day_of
       (scripted_broker 50 [held ''SPY'' 100 10 0] False) ''SPY'' (sample_world no_sales 7))) ''SPY''
     = None
   \<and> file_writes (trace (process_ticker sample_config day_of
       (scripted_broker 50 [held ''SPY'' 100 10 0] False) ''SPY'' (sample_world no_sales 7))) = []"
proof -
  let ?W = "sample_world no_sales 7"
  let ?ps = "[held ''SPY'' 100 10 0]"
  let ?w2 = "emit (LogInfo (Analyzing ''SPY'')) ?W"
  let ?w3 = "emit (MarketData ''SPY'' 50) ?w2"
  let ?w4 = "emit (Positions ?ps) ?w3"
  have held: "find (position_matches ''SPY'') ?ps = Some (held ''SPY'' 100 10 0)"
    "nonempty_dict (held ''SPY'' 100 10 0)"
    by (simp_all add: sample_defs eval_defs)
  have verdict: "analyze_erosion sample_config ''SPY'' 50
      (dict_get (average_price (held ''SPY'' 100 10 0)) 0)
      (dict_get (dividends (held ''SPY'' 100 10 0)) 0) = SELL_CRITICAL"
    by (simp add: sample_defs eval_defs)
  have checked: "check_wash_sale sample_config (day_of (env ?W)) ''SPY'' ?w2 = (False, ?w2)"
    by (simp add: sample_defs eval_defs)
  have quoted: "get_market_data (scripted_broker 50 ?ps ok) ''SPY'' ?w2 = (50, ?w3)"
    for ok by (simp add: sample_defs eval_defs emit_def)
  have priced: "(50::real) \<noteq> 0"
    by simp
  have fetched: "get_positions (scripted_broker 50 ?ps ok) ?w3 = (?ps, ?w4)"
    for ok by (simp add: sample_defs eval_defs emit_def)
  have ordered: "place_order (scripted_broker 50 ?ps ok) ''SPY'' ''SELL''
      (py_int (dict_get (quantity (held ''SPY'' 100 10 0)) 0)) ?w4
      = (ok, emit (PlaceOrder ''SPY'' ''SELL'' 10 ok) ?w4)"
    for ok by (simp add: sample_defs eval_defs emit_def)
  from order_then_record [where clock = day_of and w = "?W" and success = True,
      OF held verdict checked quoted [of True] priced fetched [of True] ordered [of True]]
  have sold: "wash_sale_log (bot_state (process_ticker sample_config day_of
       (scripted_broker 50 ?ps True) ''SPY'' ?W)) ''SPY'' = Some 7"
    by (simp add: sample_defs)
  from order_then_record [where clock = day_of and w = "?W" and success = False,
      OF held verdict checked quoted [of False] priced fetched [of False] ordered [of False]]
  have refused: "process_ticker sample_config day_of (scripted_broker 50 ?ps False) ''SPY'' ?W
      = emit (PlaceOrder ''SPY'' ''SELL'' 10 False) ?w4"
    by simp
  show ?thesis
    by (simp add: sold refused) (simp add: sample_defs)
qed


text \<open>
  Claim C4 asks that a ticker whose reported price is not strictly positive is left alone for
  the cycle. The guard of the watchlist loop is \<^verbatim>\<open>price == 0\<close>, whereas the options loop
  of the same function goes on only when \<^verbatim>\<open>price > 0\<close>. With a reported price of -1 and
  a held position the guard lets the ticker through: the positions are fetched, the decision is
  taken, the whole position is sold and the ledger gets a cooldown entry.
\<close>

theorem negative_price_is_traded:
  "position_lookups (trace negative_quote_run) = [held ''SPY'' 10 5 0] # []
   \<and> orders (trace negative_quote_run) = [(''SPY'', ''SELL'', 5)]
   \<and> wash_sale_log (bot_state negative_quote_run) ''SPY'' = Some 7
   \<and> wash_sale_log (bot_state (sample_world no_sales 7)) ''SPY'' = None"
  by (simp add: negative_quote_run_def process_ticker_def check_position_def evaluate_position_def
      execute_sell_def record_loss_sale_def save_state_def sample_defs eval_defs)

text \<open>
  What the guard does cover. When a ticker is not in cooldown and \<^verbatim>\<open>get_market_data\<close>
  returns the price 0, the evaluation of the ticker ends with the warning that no price data
  could be got: no positions are fetched, no order is submitted, the ledger and the state file
  stay as the cooldown check left them, and the loop goes on with the rest of the watchlist.
\<close>

theorem zero_price_skips:
  assumes checked: "check_wash_sale cfg (clock (env w)) ticker (emit (LogInfo (Analyzing ticker)) w)
                      = (False, w2)"
      and quoted: "get_market_data broker ticker w2 = (0, w3)"
  shows "process_ticker cfg clock broker ticker w = emit (LogWarning (NoPriceData ticker)) w3
         \<and> bot_state (process_ticker cfg clock broker ticker w) = bot_state w2
         \<and> log_file (process_ticker cfg clock broker ticker w) = log_file w2
         \<and> file_writes (trace (process_ticker cfg clock broker ticker w)) = file_writes (trace w2)
         \<and> position_lookups (trace (process_ticker cfg clock broker ticker w))
             = position_lookups (trace w)
         \<and> orders (trace (process_ticker cfg clock broker ticker w)) = orders (trace w)
         \<and> watchlist_loop cfg clock broker (ticker # rest) w
             = watchlist_loop cfg clock broker rest (emit (LogWarning (NoPriceData ticker)) w3)"
proof -
  have run: "process_ticker cfg clock broker ticker w = emit (LogWarning (NoPriceData ticker)) w3"
    using checked quoted by (simp add: process_ticker_def Let_def)
  have frame: "bot_state w3 = bot_state w2" "log_file w3 = log_file w2"
    using get_market_data_effect(1,2) [OF quoted] by simp_all
  have quiet: "file_writes (trace w3) = file_writes (trace w2)"
    "position_lookups (trace w3) = position_lookups (trace w2)"
    "orders (trace w3) = orders (trace w2)"
    using get_market_data_effect(3) [OF quoted] by auto
  have before: "position_lookups (trace w2) = position_lookups (trace w)"
    "orders (trace w2) = orders (trace w)"
    using check_wash_sale_effect(2,3) [OF checked] by simp_all
  show ?thesis
    by (simp add: run frame quiet before)
qed

theorem zero_price_skips_witness:
  "process_ticker sample_config day_of (scripted_broker 0 [held ''SPY'' 10 5 0] True) ''SPY''
       (sample_world no_sales 7)
     = emit (LogWarning (NoPriceData ''SPY''))
         (emit (MarketData ''SPY'' 0) (emit (LogInfo (Analyzing ''SPY'')) (sample_world no_sales 7)))
   \<and> orders (trace (process_ticker sample_config day_of (scripted_broker 0 [held ''SPY'' 10 5 0] True)
        ''SPY'' (sample_world no_sales 7))) = []"
proof -
  let ?W = "sample_world no_sales 7"
  let ?w2 = "emit (LogInfo (Analyzing ''SPY'')) ?W"
  let ?w3 = "emit (MarketData ''SPY'' 0) ?w2"
  have checked: "check_wash_sale sample_config (day_of (env ?W)) ''SPY'' ?w2 = (False, ?w2)"
    by (simp add: sample_defs eval_defs)
  have quoted: "get_market_data (scripted_broker 0 [held ''SPY'' 10 5 0] True) ''SPY'' ?w2 = (0, ?w3)"
    by (simp add: sample_defs eval_defs emit_def)
  from zero_price_skips [where clock = day_of and w = "?W", OF checked quoted]
  show ?thesis by (simp add: sample_defs)
qed

text \<open>
  Claim C7, as stated, fails: the quantity is converted with \<^verbatim>\<open>int\<close> before the order. A
  position of 10.5 shares is sold with an order for 10.
\<close>

theorem fractional_quantity_counterexample:
  "find (position_matches ''SPY'') [held ''SPY'' 100 10.5 0] = Some (held ''SPY'' 100 10.5 0)
   \<and> quantity (held ''SPY'' 100 10.5 0) = Some 10.5
   \<and> orders (trace fractional_run) = [(''SPY'', ''SELL'', 10)]
   \<and> real_of_int 10 \<noteq> 10.5"
  by (simp add: fractional_run_def process_ticker_def check_position_def evaluate_position_def
      execute_sell_def record_loss_sale_def save_state_def sample_defs eval_defs)

text \<open>
  Claim C7, amended. For a ticker that is not in cooldown, with a price other than 0, a
  matching non-empty position and the decision \<open>SELL_CRITICAL\<close>, exactly one order is
  submitted: a \<^verbatim>\<open>SELL\<close> of the ticker for the quantity of the first matching position among
  those just fetched, with its fractional part dropped (0 when the record has no quantity).
  The order differs from the reported quantity by less than one unit and is never larger in
  absolute value; when the reported quantity is a whole number, the order is for all of it.
\<close>

theorem sell_quantity:
  assumes held: "find (position_matches ticker) positions = Some p" "nonempty_dict p"
      and verdict: "analyze_erosion cfg ticker price (dict_get (average_price p) 0)
                      (dict_get (dividends p) 0) = SELL_CRITICAL"
      and checked: "check_wash_sale cfg (clock (env w)) ticker (emit (LogInfo (Analyzing ticker)) w)
                      = (False, w2)"
      and quoted: "get_market_data broker ticker w2 = (price, w3)" "price \<noteq> 0"
      and fetched: "get_positions broker w3 = (positions, w4)"
  shows "orders (trace (process_ticker cfg clock broker ticker w))
           = orders (trace w) @ [(ticker, ''SELL'', py_int (dict_get (quantity p) 0))]
         \<and> position_lookups (trace (process_ticker cfg clock broker ticker w))
           = position_lookups (trace w) @ [positions]
         \<and> \<bar>of_int (py_int (dict_get (quantity p) 0)) - dict_get (quantity p) 0\<bar> < 1
         \<and> \<bar>of_int (py_int (dict_get (quantity p) 0)) :: real\<bar> \<le> \<bar>dict_get (quantity p) 0\<bar>
         \<and> (\<forall>n. quantity p = Some (of_int n) \<longrightarrow>
               orders (trace (process_ticker cfg clock broker ticker w))
                 = orders (trace w) @ [(ticker, ''SELL'', n)])"
proof -
  let ?qty = "py_int (dict_get (quantity p) 0)"
  obtain success w5 where ordered: "place_order broker ticker ''SELL'' ?qty w4 = (success, w5)"
    by (cases "place_order broker ticker ''SELL'' ?qty w4")
  have run: "process_ticker cfg clock broker ticker w = execute_sell clock broker ticker ?qty w4"
    using held verdict checked quoted fetched
    by (simp add: process_ticker_def check_position_def evaluate_position_def Let_def)
  have before: "orders (trace w4) = orders (trace w)"
    "position_lookups (trace w4) = position_lookups (trace w) @ [positions]"
    using check_wash_sale_effect(2,3) [OF checked] get_market_data_effect(3) [OF quoted(1)]
      get_positions_effect(3) [OF fetched] by auto
  have sold: "orders (trace (execute_sell clock broker ticker ?qty w4))
      = orders (trace w4) @ [(ticker, ''SELL'', ?qty)]"
    "position_lookups (trace (execute_sell clock broker ticker ?qty w4)) = position_lookups (trace w4)"
    using place_order_effect(3) [OF ordered] ordered
    by (auto simp: execute_sell_def record_loss_sale_def save_state_def Let_def)
  have placed: "orders (trace (process_ticker cfg clock broker ticker w))
      = orders (trace w) @ [(ticker, ''SELL'', ?qty)]"
    "position_lookups (trace (process_ticker cfg clock broker ticker w))
      = position_lookups (trace w) @ [positions]"
    by (simp_all add: run sold before)
  have whole: "?qty = n" if "quantity p = Some (of_int n)" for n
    using that by (simp add: dict_get_def)
  have exact: "\<forall>n. quantity p = Some (of_int n) \<longrightarrow>
      orders (trace (process_ticker cfg clock broker ticker w)) = orders (trace w) @ [(ticker, ''SELL'', n)]"
    using placed(1) whole by metis
  from placed py_int_truncates [of "dict_get (quantity p) 0"] exact
  show ?thesis by blast
qed

theorem sell_quantity_witness:
  "orders (trace (process_ticker sample_config day_of (scripted_broker 50 [held ''SPY'' 100 10 0] True)
      ''SPY'' (sample_world no_sales 7))) = [(''SPY'', ''SELL'', 10)]"
proof -
  let ?W = "sample_world no_sales 7"
  let ?ps = "[held ''SPY'' 100 10 0]"
  let ?w2 = "emit (LogInfo (Analyzing ''SPY'')) ?W"
  let ?w3 = "emit (MarketData ''SPY'' 50) ?w2"
  let ?w4 = "emit (Positions ?ps) ?w3"
  have held: "find (position_matches ''SPY'') ?ps = Some (held ''SPY'' 100 10 0)"
    "nonempty_dict (held ''SPY'' 100 10 0)"
    by (simp_all add: sample_defs eval_defs)
  have verdict: "analyze_erosion sample_config ''SPY'' 50
      (dict_get (average_price (held ''SPY'' 100 10 0)) 0)
      (dict_get (dividends (held ''SPY'' 100 10 0)) 0) = SELL_CRITICAL"
    by (simp add: sample_defs eval_defs)
  have checked: "check_wash_sale sample_config (day_of (env ?W)) ''SPY'' ?w2 = (False, ?w2)"
    by (simp add: sample_defs eval_defs)
  have quoted: "get_market_data (scripted_broker 50 ?ps True) ''SPY'' ?w2 = (50, ?w3)"
    by (simp add: sample_defs eval_defs emit_def)
  have priced: "(50::real) \<noteq> 0"
    by simp
  have fetched: "get_positions (scripted_broker 50 ?ps True) ?w3 = (?ps, ?w4)"
    by (simp add: sample_defs eval_defs emit_def)
  have whole: "quantity (held ''SPY'' 100 10 0) = Some (of_int 10)"
    by (simp add: sample_defs)
  from sell_quantity [where clock = day_of and w = "?W", OF held verdict checked quoted priced fetched]
    whole
  have "orders (trace (process_ticker sample_config day_of (scripted_broker 50 ?ps True) ''SPY'' ?W))
      = orders (trace ?W) @ [(''SPY'', ''SELL'', 10)]"
    by blast
  then show ?thesis by (simp add: sample_defs)
qed


text \<open>
  Claim C10. A key among \<^verbatim>\<open>average_price\<close>, \<^verbatim>\<open>quantity\<close> and \<^verbatim>\<open>dividends\<close> that the
  position record lacks is read as 0: the position is evaluated as if the key were there
  with the value 0, and nothing is raised. A record that holds nothing but a matching symbol
  is not empty, is the position selected when it comes first, and is evaluated with average
  cost 0, quantity 0 and dividends 0.
\<close>

theorem missing_fields_default_to_zero:
  "evaluate_position cfg clock broker ticker price (p\<lparr>average_price := None\<rparr>) w
     = evaluate_position cfg clock broker ticker price (p\<lparr>average_price := Some 0\<rparr>) w
   \<and> evaluate_position cfg clock broker ticker price (p\<lparr>quantity := None\<rparr>) w
     = evaluate_position cfg clock broker ticker price (p\<lparr>quantity := Some 0\<rparr>) w
   \<and> evaluate_position cfg clock broker ticker price (p\<lparr>dividends := None\<rparr>) w
     = evaluate_position cfg clock broker ticker price (p\<lparr>dividends := Some 0\<rparr>) w
   \<and> nonempty_dict (symbol_only s)
   \<and> (position_matches ticker (symbol_only s) \<longrightarrow>
        find (position_matches ticker) (symbol_only s # others) = Some (symbol_only s))
   \<and> evaluate_position cfg clock broker ticker price (symbol_only s) w
     = (case analyze_erosion cfg ticker price 0 0 of
          SELL_CRITICAL \<Rightarrow> execute_sell clock broker ticker 0 w
        | HOLD \<Rightarrow> emit (LogInfo (HoldingSteady ticker)) w)"
  by (simp add: evaluate_position_def dict_get_def py_int_def nonempty_dict_def symbol_only_def)

theorem missing_fields_default_to_zero_witness:
  "find (position_matches ''SPY'') [symbol_only ''SPY''] = Some (symbol_only ''SPY'')
   \<and> evaluate_position sample_config day_of (scripted_broker 50 [symbol_only ''SPY''] True) ''SPY'' 50
       (symbol_only ''SPY'') (sample_world no_sales 7)
     = emit (LogInfo (HoldingSteady ''SPY'')) (sample_world no_sales 7)"
proof -
  have matches: "position_matches ''SPY'' (symbol_only ''SPY'')"
    by (simp add: sample_defs eval_defs)
  have hold: "analyze_erosion sample_config ''SPY'' 50 0 0 = HOLD"
    by (simp add: sample_defs eval_defs)
  from missing_fields_default_to_zero [where cfg = sample_config and clock = day_of
      and broker = "scripted_broker 50 [symbol_only ''SPY''] True" and ticker = "''SPY''"
      and price = 50 and w = "sample_world no_sales 7" and s = "''SPY''" and others = "[]"]
    matches hold
  show ?thesis by simp
qed



section \<open>The whole cycle\<close>

text \<open>
  Claim C8, as stated, fails for the steps of the loop body itself, which has no \<^verbatim>\<open>try\<close>.
  With the watchlist \<^verbatim>\<open>SPY\<close>, \<^verbatim>\<open>QQQ\<close> and a position in \<^verbatim>\<open>SPY\<close> whose quantity is the
  text \<^verbatim>\<open>'10.00000000'\<close>, \<^verbatim>\<open>int\<close> raises \<^verbatim>\<open>ValueError\<close> after the positions were
  fetched: the exception leaves \<^verbatim>\<open>run_bot_cycle\<close>, and \<^verbatim>\<open>QQQ\<close> is not analyzed.
\<close>

theorem unusable_quantity_counterexample:
  "text_quantity_run
     = Uncaught ValueError
         (emit (Positions [text_quantity])
            (emit (MarketData ''SPY'' 50)
               (emit (LogInfo (Analyzing ''SPY'')) (sample_world no_sales 7))))
   \<and> WATCHLIST sample_config = [''SPY'', ''QQQ'']
   \<and> analyzed (trace (emit (Positions [text_quantity])
            (emit (MarketData ''SPY'' 50)
               (emit (LogInfo (Analyzing ''SPY'')) (sample_world no_sales 7))))) = [''SPY'']
   \<and> is_connected (scripted_broker 50 [text_quantity] True)"
  by (simp add: text_quantity_run_def raising_defs sample_defs eval_defs emit_def)

text \<open>
  Claim C8, amended. The failures of the broker's calls are isolated, inside the broker
  methods: when the brokerage library raises while the price, the positions or an order are
  requested, an error is logged, the method returns its fallback, and the evaluation of the
  ticker ends as for a price that is not available, a ticker without position, or an order
  that was not placed. As long as no statement of the loop body itself raises, the cycle is
  never left by an exception, whatever the broker does: the loop goes on with the rest of the
  watchlist after each ticker, the analysis of every ticker of the watchlist is started, in
  the order of the watchlist, and the cycle ends with the record that it is complete.
\<close>

theorem broker_failures_isolated:
  assumes "no_faults f"
  shows "run_bot_cycle_raising cfg clock f (broker # others) w
           = Normal () (run_bot_cycle cfg clock (broker # others) w)
     \<and> watchlist_loop_raising cfg clock f broker (ticker # rest) w
           = watchlist_loop_raising cfg clock f broker rest (process_ticker cfg clock broker ticker w)
     \<and> (check_wash_sale cfg (clock (env w)) ticker (emit (LogInfo (Analyzing ticker)) w) = (False, w2)
          \<and> is_connected broker
          \<and> market_data_body broker ticker (env w2) = (Raises msg, e)
        \<longrightarrow> process_ticker cfg clock broker ticker w
              = emit (LogWarning (NoPriceData ticker))
                  (emit (MarketData ticker 0)
                     (emit (LogError (MarketDataError ticker msg)) (w2\<lparr>env := e\<rparr>))))
     \<and> (check_wash_sale cfg (clock (env w)) ticker (emit (LogInfo (Analyzing ticker)) w) = (False, w2)
          \<and> get_market_data broker ticker w2 = (price, w3) \<and> price \<noteq> 0
          \<and> is_connected broker
          \<and> positions_body broker (env w3) = (Raises msg, e)
        \<longrightarrow> process_ticker cfg clock broker ticker w
              = emit (LogInfo (NoPosition ticker price))
                  (emit (Positions [])
                     (emit (LogError (PositionsError msg)) (w3\<lparr>env := e\<rparr>))))
     \<and> (check_wash_sale cfg (clock (env w)) ticker (emit (LogInfo (Analyzing ticker)) w) = (False, w2)
          \<and> get_market_data broker ticker w2 = (price, w3) \<and> price \<noteq> 0
          \<and> get_positions broker w3 = (positions, w4)
          \<and> find (position_matches ticker) positions = Some p \<and> nonempty_dict p
          \<and> analyze_erosion cfg ticker price (dict_get (average_price p) 0)
               (dict_get (dividends p) 0) = SELL_CRITICAL
          \<and> is_connected broker
          \<and> place_order_body broker ticker ''SELL'' (py_int (dict_get (quantity p) 0)) (env w4)
               = (Raises msg, e)
        \<longrightarrow> process_ticker cfg clock broker ticker w
              = emit (PlaceOrder ticker ''SELL'' (py_int (dict_get (quantity p) 0)) False)
                  (emit (LogError (OrderError msg)) (w4\<lparr>env := e\<rparr>)))
     \<and> analyzed (trace (run_bot_cycle cfg clock (broker # others) w)) = analyzed (trace w) @ WATCHLIST cfg
     \<and> last (trace (run_bot_cycle cfg clock (broker # others) w)) = LogInfo CycleComplete"
proof -
  have cycle: "run_bot_cycle_raising cfg clock f (broker # others) w
      = Normal () (run_bot_cycle cfg clock (broker # others) w)"
    using assms by (rule run_bot_cycle_no_faults)
  have step: "watchlist_loop_raising cfg clock f broker (ticker # rest) w
      = watchlist_loop_raising cfg clock f broker rest (process_ticker cfg clock broker ticker w)"
    by (simp add: process_ticker_no_faults [OF assms])
  have snapshot: "check_wash_sale cfg (clock (env w)) ticker (emit (LogInfo (Analyzing ticker)) w) = (False, w2)
          \<and> is_connected broker
          \<and> market_data_body broker ticker (env w2) = (Raises msg, e)
        \<longrightarrow> process_ticker cfg clock broker ticker w
              = emit (LogWarning (NoPriceData ticker))
                  (emit (MarketData ticker 0)
                     (emit (LogError (MarketDataError ticker msg)) (w2\<lparr>env := e\<rparr>)))"
    by (simp add: process_ticker_def get_market_data_def Let_def)
  have lookup: "check_wash_sale cfg (clock (env w)) ticker (emit (LogInfo (Analyzing ticker)) w) = (False, w2)
          \<and> get_market_data broker ticker w2 = (price, w3) \<and> price \<noteq> 0
          \<and> is_connected broker
          \<and> positions_body broker (env w3) = (Raises msg, e)
        \<longrightarrow> process_ticker cfg clock broker ticker w
              = emit (LogInfo (NoPosition ticker price))
                  (emit (Positions [])
                     (emit (LogError (PositionsError msg)) (w3\<lparr>env := e\<rparr>)))"
    by (simp add: process_ticker_def check_position_def get_positions_def Let_def)
  have gateway: "check_wash_sale cfg (clock (env w)) ticker (emit (LogInfo (Analyzing ticker)) w) = (False, w2)
          \<and> get_market_data broker ticker w2 = (price, w3) \<and> price \<noteq> 0
          \<and> get_positions broker w3 = (positions, w4)
          \<and> find (position_matches ticker) positions = Some p \<and> nonempty_dict p
          \<and> analyze_erosion cfg ticker price (dict_get (average_price p) 0)
               (dict_get (dividends p) 0) = SELL_CRITICAL
          \<and> is_connected broker
          \<and> place_order_body broker ticker ''SELL'' (py_int (dict_get (quantity p) 0)) (env w4)
               = (Raises msg, e)
        \<longrightarrow> process_ticker cfg clock broker ticker w
              = emit (PlaceOrder ticker ''SELL'' (py_int (dict_get (quantity p) 0)) False)
                  (emit (LogError (OrderError msg)) (w4\<lparr>env := e\<rparr>))"
    by (simp add: process_ticker_def check_position_def evaluate_position_def execute_sell_def
        place_order_def Let_def)
  have whole: "analyzed (trace (run_bot_cycle cfg clock (broker # others) w)) = analyzed (trace w) @ WATCHLIST cfg"
    "last (trace (run_bot_cycle cfg clock (broker # others) w)) = LogInfo CycleComplete"
    by (simp_all add: run_bot_cycle_def analyzed_options_loop analyzed_watchlist_loop)
  from cycle step snapshot lookup gateway whole show ?thesis
    by blast
qed

theorem broker_failures_isolated_witness:
  "run_bot_cycle_raising sample_config day_of nothing_raises [flaky_broker] (sample_world no_sales 7)
     = Normal () flaky_run
   \<and> process_ticker sample_config day_of flaky_broker ''SPY'' (sample_world no_sales 7)
     = emit (LogWarning (NoPriceData ''SPY''))
         (emit (MarketData ''SPY'' 0)
            (emit (LogError (MarketDataError ''SPY'' ''timeout''))
               (emit (LogInfo (Analyzing ''SPY'')) (sample_world no_sales 7))))
   \<and> process_ticker sample_config day_of
         (broker_with (Returns 50) (Raises ''timeout'') (Returns True)) ''SPY'' (sample_world no_sales 7)
     = emit (LogInfo (NoPosition ''SPY'' 50))
         (emit (Positions [])
            (emit (LogError (PositionsError ''timeout''))
               (emit (MarketData ''SPY'' 50)
                  (emit (LogInfo (Analyzing ''SPY'')) (sample_world no_sales 7)))))
   \<and> process_ticker sample_config day_of
         (broker_with (Returns 50) (Returns [held ''SPY'' 100 10 0]) (Raises ''rejected'')) ''SPY''
         (sample_world no_sales 7)
     = emit (PlaceOrder ''SPY'' ''SELL'' 10 False)
         (emit (LogError (OrderError ''rejected''))
            (emit (Positions [held ''SPY'' 100 10 0])
               (emit (MarketData ''SPY'' 50)
                  (emit (LogInfo (Analyzing ''SPY'')) (sample_world no_sales 7)))))
   \<and> trace flaky_run
     = [LogInfo (Analyzing ''SPY''), LogError (MarketDataError ''SPY'' ''timeout''),
        MarketData ''SPY'' 0, LogWarning (NoPriceData ''SPY''),
        LogInfo (Analyzing ''QQQ''), MarketData ''QQQ'' 50, Positions [held ''QQQ'' 100 10 0],
        PlaceOrder ''QQQ'' ''SELL'' 10 True, FileWritten (bot_state flaky_run),
        LogInfo (CooldownLogged ''QQQ''),
        LogInfo (AnalyzingOptions ''SPY''), LogError (MarketDataError ''SPY'' ''timeout''),
        MarketData ''SPY'' 0, LogInfo CycleComplete]
   \<and> wash_sale_log (bot_state flaky_run) ''QQQ'' = Some 7"
proof -
  let ?W = "sample_world no_sales 7"
  let ?w2 = "emit (LogInfo (Analyzing ''SPY'')) ?W"
  let ?w3 = "emit (MarketData ''SPY'' 50) ?w2"
  let ?ps = "[held ''SPY'' 100 10 0]"
  let ?w4 = "emit (Positions ?ps) ?w3"
  let ?lookup_fails = "broker_with (Returns 50) (Raises ''timeout'') (Returns True)"
  let ?order_fails = "broker_with (Returns 50) (Returns ?ps) (Raises ''rejected'')"
  have quiet: "no_faults nothing_raises"
    by (simp add: no_faults_def nothing_raises_def)
  have checked: "check_wash_sale sample_config (day_of (env ?W)) ''SPY'' ?w2 = (False, ?w2)"
    by (simp add: sample_defs eval_defs)
  have raises: "is_connected flaky_broker"
    "market_data_body flaky_broker ''SPY'' (env ?w2) = (Raises ''timeout'', 7)"
    by (simp_all add: flaky_broker_def sample_defs)
  have same: "?w2\<lparr>env := 7\<rparr> = ?w2" "?w3\<lparr>env := 7\<rparr> = ?w3" "?w4\<lparr>env := 7\<rparr> = ?w4"
    by (simp_all add: sample_defs emit_def)
  have quoted: "get_market_data (broker_with (Returns 50) ps ord) ''SPY'' ?w2 = (50, ?w3)"
    for ps ord by (simp add: sample_defs eval_defs emit_def)
  have priced: "(50::real) \<noteq> 0"
    by simp
  have lookup_raises: "is_connected ?lookup_fails"
    "positions_body ?lookup_fails (env ?w3) = (Raises ''timeout'', 7)"
    by (simp_all add: sample_defs)
  have fetched: "get_positions ?order_fails ?w3 = (?ps, ?w4)"
    by (simp add: sample_defs eval_defs emit_def)
  have held: "find (position_matches ''SPY'') ?ps = Some (held ''SPY'' 100 10 0)"
    "nonempty_dict (held ''SPY'' 100 10 0)"
    by (simp_all add: sample_defs eval_defs)
  have verdict: "analyze_erosion sample_config ''SPY'' 50
      (dict_get (average_price (held ''SPY'' 100 10 0)) 0)
      (dict_get (dividends (held ''SPY'' 100 10 0)) 0) = SELL_CRITICAL"
    by (simp add: sample_defs eval_defs)
  have order_raises: "is_connected ?order_fails"
    "place_order_body ?order_fails ''SPY'' ''SELL''
       (py_int (dict_get (quantity (held ''SPY'' 100 10 0)) 0)) (env ?w4) = (Raises ''rejected'', 7)"
    by (simp_all add: sample_defs)
  have ten: "py_int (dict_get (quantity (held ''SPY'' 100 10 0)) 0) = 10"
    by (simp add: sample_defs eval_defs)
  from broker_failures_isolated [OF quiet, where cfg = sample_config and clock = day_of
      and broker = flaky_broker and others = "[]" and w = "?W" and ticker = "''SPY''"
      and ?w2.0 = "?w2" and msg = "''timeout''" and e = 7]
    checked raises
  have "run_bot_cycle_raising sample_config day_of nothing_raises [flaky_broker] ?W
      = Normal () (run_bot_cycle sample_config day_of [flaky_broker] ?W)
    \<and> process_ticker sample_config day_of flaky_broker ''SPY'' ?W
      = emit (LogWarning (NoPriceData ''SPY''))
          (emit (MarketData ''SPY'' 0)
             (emit (LogError (MarketDataError ''SPY'' ''timeout'')) (?w2\<lparr>env := 7\<rparr>)))"
    by blast
  then have first: "run_bot_cycle_raising sample_config day_of nothing_raises [flaky_broker] ?W
      = Normal () flaky_run
    \<and> process_ticker sample_config day_of flaky_broker ''SPY'' ?W
      = emit (LogWarning (NoPriceData ''SPY''))
          (emit (MarketData ''SPY'' 0)
             (emit (LogError (MarketDataError ''SPY'' ''timeout'')) ?w2))"
    by (simp add: same flaky_run_def)
  from broker_failures_isolated [OF quiet, where cfg = sample_config and clock = day_of
      and broker = "?lookup_fails" and w = "?W" and ticker = "''SPY''"
      and ?w2.0 = "?w2" and ?w3.0 = "?w3" and price = 50 and msg = "''timeout''" and e = 7]
    checked quoted priced lookup_raises
  have "process_ticker sample_config day_of ?lookup_fails ''SPY'' ?W
      = emit (LogInfo (NoPosition ''SPY'' 50))
          (emit (Positions []) (emit (LogError (PositionsError ''timeout'')) (?w3\<lparr>env := 7\<rparr>)))"
    by blast
  then have second: "process_ticker sample_config day_of ?lookup_fails ''SPY'' ?W
      = emit (LogInfo (NoPosition ''SPY'' 50))
          (emit (Positions []) (emit (LogError (PositionsError ''timeout'')) ?w3))"
    by (simp add: same)
  from broker_failures_isolated [OF quiet, where cfg = sample_config and clock = day_of
      and broker = "?order_fails" and w = "?W" and ticker = "''SPY''"
      and ?w2.0 = "?w2" and ?w3.0 = "?w3" and ?w4.0 = "?w4" and price = 50
      and positions = "?ps" and p = "held ''SPY'' 100 10 0" and msg = "''rejected''" and e = 7]
    checked quoted priced fetched held verdict order_raises
  have "process_ticker sample_config day_of ?order_fails ''SPY'' ?W
      = emit (PlaceOrder ''SPY'' ''SELL'' (py_int (dict_get (quantity (held ''SPY'' 100 10 0)) 0)) False)
          (emit (LogError (OrderError ''rejected'')) (?w4\<lparr>env := 7\<rparr>))"
    by blast
  then have third: "process_ticker sample_config day_of ?order_fails ''SPY'' ?W
      = emit (PlaceOrder ''SPY'' ''SELL'' 10 False)
          (emit (LogError (OrderError ''rejected'')) ?w4)"
    by (simp add: same ten)
  have run: "trace flaky_run
     = [LogInfo (Analyzing ''SPY''), LogError (MarketDataError ''SPY'' ''timeout''),
        MarketData ''SPY'' 0, LogWarning (NoPriceData ''SPY''),
        LogInfo (Analyzing ''QQQ''), MarketData ''QQQ'' 50, Positions [held ''QQQ'' 100 10 0],
        PlaceOrder ''QQQ'' ''SELL'' 10 True, FileWritten (bot_state flaky_run),
        LogInfo (CooldownLogged ''QQQ''),
        LogInfo (AnalyzingOptions ''SPY''), LogError (MarketDataError ''SPY'' ''timeout''),
        MarketData ''SPY'' 0, LogInfo CycleComplete]"
    "wash_sale_log (bot_state flaky_run) ''QQQ'' = Some 7"
    by (simp_all add: flaky_run_def flaky_broker_def run_bot_cycle_def process_ticker_def
        check_position_def evaluate_position_def execute_sell_def record_loss_sale_def save_state_def
        process_options_ticker_def sample_defs eval_defs)
  from first second third run show ?thesis
    by blast
qed

text \<open>
  Over a whole cycle, with any watchlist (a ticker may occur in it more than once): a ticker
  for which no order was reported as placed during the cycle has, at the end, the ledger
  entry it had at the start or none.
\<close>

lemma successful_sales_append [simp]:
  "successful_sales (xs @ ys) = successful_sales xs @ successful_sales ys"
  by (induction xs rule: successful_sales.induct) simp_all

lemma sales_check_wash_sale:
  assumes "check_wash_sale cfg today ticker w = (restricted, w')"
  shows "successful_sales (trace w') = successful_sales (trace w)"
    "wash_sale_log (bot_state w') t = wash_sale_log (bot_state w) t
     \<or> wash_sale_log (bot_state w') t = None"
  using assms
  by (auto simp: check_wash_sale_def save_state_def Let_def split: option.splits if_splits)

lemma sales_get_market_data:
  "get_market_data broker ticker w = (price, w') \<Longrightarrow>
     successful_sales (trace w') = successful_sales (trace w)"
  using get_market_data_effect(3) [of broker ticker w price w'] by auto

lemma sales_get_positions:
  "get_positions broker w = (positions, w') \<Longrightarrow>
     successful_sales (trace w') = successful_sales (trace w)"
  using get_positions_effect(3) [of broker w positions w'] by auto

lemma sales_get_options_chain:
  "get_options_chain broker ticker w = (chain, w') \<Longrightarrow>
     successful_sales (trace w') = successful_sales (trace w) \<and> bot_state w' = bot_state w"
  by (auto simp: get_options_chain_def split: if_splits prod.splits attempt.splits)

lemma sales_execute_sell:
  "\<exists>extra. successful_sales (trace (execute_sell clock broker ticker qty w))
       = successful_sales (trace w) @ extra
     \<and> (wash_sale_log (bot_state (execute_sell clock broker ticker qty w)) t
           = wash_sale_log (bot_state w) t
        \<or> t \<in> set extra)"
proof -
  obtain success w1 where o: "place_order broker ticker ''SELL'' qty w = (success, w1)"
    by (cases "place_order broker ticker ''SELL'' qty w")
  show ?thesis
  proof (cases success)
    case True
    with place_order_effect(3) [OF o]
    have "trace w1 = trace w @ [PlaceOrder ticker ''SELL'' qty True]" by auto
    with o True place_order_effect(1) [OF o] show ?thesis
      by (auto simp: execute_sell_def record_loss_sale_def save_state_def Let_def)
  next
    case False
    with place_order_effect(3) [OF o]
    have "successful_sales (trace w1) = successful_sales (trace w)" by auto
    with o False place_order_effect(1) [OF o] show ?thesis
      by (simp add: execute_sell_def)
  qed
qed

lemma sales_check_position:
  "\<exists>extra. successful_sales (trace (check_position cfg clock broker ticker price w))
       = successful_sales (trace w) @ extra
     \<and> (wash_sale_log (bot_state (check_position cfg clock broker ticker price w)) t
           = wash_sale_log (bot_state w) t
        \<or> t \<in> set extra)"
proof -
  obtain positions w1 where f: "get_positions broker w = (positions, w1)"
    by (cases "get_positions broker w")
  have same: "successful_sales (trace w1) = successful_sales (trace w)" "bot_state w1 = bot_state w"
    using sales_get_positions [OF f] get_positions_effect(1) [OF f] by simp_all
  show ?thesis
    using sales_execute_sell [of clock broker ticker _ w1 t] f same
    by (auto simp: check_position_def evaluate_position_def Let_def
        split: option.splits decision.splits)
qed

lemma sales_process_ticker:
  "\<exists>extra. successful_sales (trace (process_ticker cfg clock broker ticker w))
       = successful_sales (trace w) @ extra
     \<and> (wash_sale_log (bot_state (process_ticker cfg clock broker ticker w)) t
           = wash_sale_log (bot_state w) t
        \<or> wash_sale_log (bot_state (process_ticker cfg clock broker ticker w)) t = None
        \<or> t \<in> set extra)"
proof -
  obtain r w2 where c: "check_wash_sale cfg (clock (env w)) ticker (emit (LogInfo (Analyzing ticker)) w) = (r, w2)"
    by (cases "check_wash_sale cfg (clock (env w)) ticker (emit (LogInfo (Analyzing ticker)) w)")
  obtain price w3 where q: "get_market_data broker ticker w2 = (price, w3)"
    by (cases "get_market_data broker ticker w2")
  have s2: "successful_sales (trace w2) = successful_sales (trace w)"
    using sales_check_wash_sale(1) [OF c] by simp
  have l2: "wash_sale_log (bot_state w2) t = wash_sale_log (bot_state w) t
     \<or> wash_sale_log (bot_state w2) t = None"
    using sales_check_wash_sale(2) [OF c, of t] by simp
  have s3: "successful_sales (trace w3) = successful_sales (trace w)" "bot_state w3 = bot_state w2"
    using sales_get_market_data [OF q] get_market_data_effect(1) [OF q] s2 by simp_all
  show ?thesis
  proof (cases "r \<or> price = 0")
    case True
    then show ?thesis
      using c q s2 s3 l2 by (auto simp: process_ticker_def Let_def)
  next
    case False
    then have run: "process_ticker cfg clock broker ticker w = check_position cfg clock broker ticker price w3"
      using c q by (simp add: process_ticker_def Let_def)
    from sales_check_position [of cfg clock broker ticker price w3 t] s3 l2
    show ?thesis unfolding run by auto
  qed
qed

lemma sales_process_options_ticker:
  "successful_sales (trace (process_options_ticker broker ticker w)) = successful_sales (trace w)
   \<and> bot_state (process_options_ticker broker ticker w) = bot_state w"
proof -
  obtain price w2 where q: "get_market_data broker ticker (emit (LogInfo (AnalyzingOptions ticker)) w) = (price, w2)"
    by (cases "get_market_data broker ticker (emit (LogInfo (AnalyzingOptions ticker)) w)")
  obtain chain w3 where o: "get_options_chain broker ticker w2 = (chain, w3)"
    by (cases "get_options_chain broker ticker w2")
  show ?thesis
    using q o sales_get_market_data [OF q] get_market_data_effect(1) [OF q] sales_get_options_chain [OF o]
    by (simp add: process_options_ticker_def analyze_options_opportunity_def Let_def)
qed

lemma sales_options_loop:
  "successful_sales (trace (options_loop broker tickers w)) = successful_sales (trace w)
   \<and> bot_state (options_loop broker tickers w) = bot_state w"
  by (induction tickers arbitrary: w) (simp_all add: sales_process_options_ticker)

lemma sales_watchlist_loop:
  "\<exists>extra. successful_sales (trace (watchlist_loop cfg clock broker tickers w))
       = successful_sales (trace w) @ extra
     \<and> (wash_sale_log (bot_state (watchlist_loop cfg clock broker tickers w)) t
           = wash_sale_log (bot_state w) t
        \<or> wash_sale_log (bot_state (watchlist_loop cfg clock broker tickers w)) t = None
        \<or> t \<in> set extra)"
proof (induction tickers arbitrary: w)
  case Nil
  then show ?case by simp
next
  case (Cons ticker rest)
  let ?w1 = "process_ticker cfg clock broker ticker w"
  obtain e1 where 1: "successful_sales (trace ?w1) = successful_sales (trace w) @ e1"
    "wash_sale_log (bot_state ?w1) t = wash_sale_log (bot_state w) t
     \<or> wash_sale_log (bot_state ?w1) t = None \<or> t \<in> set e1"
    using sales_process_ticker [of cfg clock broker ticker w t] by blast
  obtain e2 where 2: "successful_sales (trace (watchlist_loop cfg clock broker rest ?w1))
      = successful_sales (trace ?w1) @ e2"
    "wash_sale_log (bot_state (watchlist_loop cfg clock broker rest ?w1)) t
       = wash_sale_log (bot_state ?w1) t
     \<or> wash_sale_log (bot_state (watchlist_loop cfg clock broker rest ?w1)) t = None
     \<or> t \<in> set e2"
    using Cons.IH [of ?w1] by blast
  have "successful_sales (trace (watchlist_loop cfg clock broker (ticker # rest) w))
      = successful_sales (trace w) @ (e1 @ e2)"
    using 1(1) 2(1) by simp
  moreover have "wash_sale_log (bot_state (watchlist_loop cfg clock broker (ticker # rest) w)) t
       = wash_sale_log (bot_state w) t
     \<or> wash_sale_log (bot_state (watchlist_loop cfg clock broker (ticker # rest) w)) t = None
     \<or> t \<in> set (e1 @ e2)"
    using 1(2) 2(2) by auto
  ultimately show ?case by blast
qed

lemma cycle_entry_needs_successful_sale:
  assumes "successful_sales (trace (run_bot_cycle cfg clock brokers w)) = successful_sales (trace w) @ extra"
      and "t \<notin> set extra"
  shows "wash_sale_log (bot_state (run_bot_cycle cfg clock brokers w)) t = wash_sale_log (bot_state w) t
     \<or> wash_sale_log (bot_state (run_bot_cycle cfg clock brokers w)) t = None"
proof (cases brokers)
  case Nil
  then show ?thesis by (simp add: run_bot_cycle_def)
next
  case (Cons broker others)
  let ?w1 = "watchlist_loop cfg clock broker (WATCHLIST cfg) w"
  obtain e where e: "successful_sales (trace ?w1) = successful_sales (trace w) @ e"
    "wash_sale_log (bot_state ?w1) t = wash_sale_log (bot_state w) t
     \<or> wash_sale_log (bot_state ?w1) t = None \<or> t \<in> set e"
    using sales_watchlist_loop [of cfg clock broker "WATCHLIST cfg" w t] by blast
  have "successful_sales (trace (run_bot_cycle cfg clock brokers w)) = successful_sales (trace w) @ e"
    using Cons e(1) by (simp add: run_bot_cycle_def sales_options_loop)
  with assms(1) have "e = extra" by simp
  moreover have "bot_state (run_bot_cycle cfg clock brokers w) = bot_state ?w1"
    using Cons by (simp add: run_bot_cycle_def sales_options_loop)
  ultimately show ?thesis using e(2) assms(2) by simp
qed

end
